theory Spec2Isabelle
  imports Complex_Main
begin

section \<open>The numeric substrate: tensors\<close>

text \<open>
  A torch tensor is modelled by its shape and its elements in row-major order, the layout
  of a contiguous tensor. In the detectors, the elements and the fields, doubles are
  modelled by \<^typ>\<open>real\<close> and complex doubles by \<^typ>\<open>complex\<close>: that arithmetic is
  exact, rounding is not modelled. The profile generators divide and exponentiate, which
  is where a zero, an infinity or a NaN can enter a tensor: their doubles carry the range
  of a double (see \<open>double\<close> below).
\<close>

datatype 'a tensor = Tensor (tensor_shape: "nat list") (tensor_data: "'a list")

definition tensor_dim :: "'a tensor \<Rightarrow> nat" where
  "tensor_dim t = length (tensor_shape t)"

definition tensor_wf :: "'a tensor \<Rightarrow> bool" where
  "tensor_wf t = (length (tensor_data t) = prod_list (tensor_shape t))"

text \<open>Row-major offset of a multi-index, and the element there (\<open>t[i, j, ...]\<close>).\<close>

definition ravel :: "nat list \<Rightarrow> nat list \<Rightarrow> nat" where
  "ravel dims idx = foldl (\<lambda>acc (n, i). acc * n + i) 0 (zip dims idx)"

definition tensor_at :: "'a tensor \<Rightarrow> nat list \<Rightarrow> 'a" where
  "tensor_at t idx = tensor_data t ! ravel (tensor_shape t) idx"

definition tensor_map :: "('a \<Rightarrow> 'b) \<Rightarrow> 'a tensor \<Rightarrow> 'b tensor" where
  "tensor_map f t = Tensor (tensor_shape t) (map f (tensor_data t))"

text \<open>\<open>t * s\<close> for a scalar \<open>s\<close>.\<close>

definition mul_scalar :: "'a::times tensor \<Rightarrow> 'a \<Rightarrow> 'a tensor" where
  "mul_scalar t s = tensor_map (\<lambda>v. v * s) t"

datatype error =
    TypeError string
  | ValueError string
  | AttributeError string
  | IndexError string
  | RuntimeError string
  | ZeroDivisionError string
  | OverflowError string

text \<open>\<open>t.flatten(-2)\<close>: the last two axes become one; fewer than two axes is an IndexError.\<close>

definition flatten_m2 :: "'a tensor \<Rightarrow> error + 'a tensor" where
  "flatten_m2 t =
     (let s = tensor_shape t; n = length s in
      if n < 2 then Inl (IndexError ''Dimension out of range'')
      else Inr (Tensor (take (n - 2) s @ [s ! (n - 2) * s ! (n - 1)]) (tensor_data t)))"

text \<open>The \<open>n\<close> consecutive rows of length \<open>k\<close> of a row-major element list.\<close>

definition tensor_rows :: "nat \<Rightarrow> nat \<Rightarrow> 'a list \<Rightarrow> 'a list list" where
  "tensor_rows n k xs = map (\<lambda>r. take k (drop (r * k) xs)) [0..<n]"

definition dot :: "'a::comm_semiring_0 list \<Rightarrow> 'a list \<Rightarrow> 'a" where
  "dot xs ys = sum_list (map2 (*) xs ys)"

text \<open>
  \<open>torch.nn.functional.linear(input, weight)\<close> without bias: for \<open>input\<close> of shape
  \<open>(..., K)\<close> and \<open>weight\<close> of shape \<open>(C, K)\<close> the result has shape \<open>(..., C)\<close> and
  \<open>out[..., c] = sum k. input[..., k] * weight[c, k]\<close>; the weight is not conjugated.
  Only the two-dimensional weight is modelled, the one the detectors pass.
\<close>

definition linear :: "'a::comm_semiring_0 tensor \<Rightarrow> 'a tensor \<Rightarrow> error + 'a tensor" where
  "linear input weight =
     (case tensor_shape weight of
        [C, K] \<Rightarrow>
          if tensor_shape input \<noteq> [] \<and> last (tensor_shape input) = K then
            Inr (Tensor (butlast (tensor_shape input) @ [C])
              (concat (map (\<lambda>row. map (dot row) (tensor_rows C K (tensor_data weight)))
                 (tensor_rows (prod_list (butlast (tensor_shape input))) K (tensor_data input)))))
          else Inl (RuntimeError ''mat1 and mat2 shapes cannot be multiplied'')
      | _ \<Rightarrow> Inl (RuntimeError ''linear: weight is not 2-D''))"

section \<open>PlanarGeometry and the Field family\<close>

text \<open>
  \<open>planar_geometry.py\<close> and \<open>fields.py\<close> are not among the source files; what the
  elements use of them is modelled from the specification.
\<close>

record planar_geometry =
  shape :: "nat \<times> nat"
  z :: real
  spacing :: "real \<times> real"
  offset :: "real \<times> real"

text \<open>Modelled from the spec: \<open>PlanarGeometry.cell_area\<close> (planar_geometry.py is missing),
  "returns spacing[0]*spacing[1]".\<close>

definition cell_area :: "'g planar_geometry_scheme \<Rightarrow> real" where
  "cell_area g = fst (spacing g) * snd (spacing g)"

text \<open>Modelled from the spec: \<open>PlanarGeometry.is_same_geometry\<close> (planar_geometry.py is
  missing), "true iff shape equal and z/spacing/offset equal within tolerance". The
  tolerance test on two doubles is the parameter \<open>close\<close>.\<close>

definition is_same_geometry ::
  "(real \<Rightarrow> real \<Rightarrow> bool) \<Rightarrow> 'g planar_geometry_scheme \<Rightarrow> 'h planar_geometry_scheme \<Rightarrow> bool" where
  "is_same_geometry close self other =
     (shape self = shape other \<and> close (z self) (z other)
      \<and> close (fst (spacing self)) (fst (spacing other))
      \<and> close (snd (spacing self)) (snd (spacing other))
      \<and> close (fst (offset self)) (fst (offset other))
      \<and> close (snd (offset self)) (snd (offset other)))"

text \<open>The three classes of the Field family; \<open>PolarizedField\<close> and \<open>CoherenceField\<close>
  are subclasses of \<open>Field\<close>, and \<open>Field\<close> is a subclass of \<open>PlanarGeometry\<close>: the
  record of a Field extends the record of its geometry.\<close>

datatype field_class = Field | PolarizedField | CoherenceField

record field = planar_geometry +
  field_class :: field_class
  data :: "complex tensor"
  wavelength :: real

text \<open>Modelled from the spec: \<open>Field.intensity\<close> (fields.py is missing). "intensity =
  |data|^2" for a Field; for a PolarizedField the contributions of the three polarization
  components (axis -3) are summed; for a CoherenceField it is the diagonal restriction
  \<open>x1 = x2, y1 = y2\<close> of the mutual coherence.\<close>

definition abs_square :: "complex \<Rightarrow> real" where
  "abs_square v = (cmod v)\<^sup>2"

definition sum_polarization :: "nat \<Rightarrow> real list \<Rightarrow> real list" where
  "sum_polarization hw xs =
     map2 (+) (map2 (+) (take hw xs) (take hw (drop hw xs))) (take hw (drop (2 * hw) xs))"

definition intensity :: "field \<Rightarrow> real tensor" where
  "intensity f =
     (let s = tensor_shape (data f); n = length s; hw = fst (shape f) * snd (shape f) in
      case field_class f of
        Field \<Rightarrow> tensor_map abs_square (data f)
      | PolarizedField \<Rightarrow>
          Tensor (take (n - 3) s @ drop (n - 2) s)
            (concat (map (sum_polarization hw)
               (tensor_rows (prod_list (take (n - 3) s)) (3 * hw) (map abs_square (tensor_data (data f))))))
      | CoherenceField \<Rightarrow>
          Tensor (drop (n - 2) s)
            (map (\<lambda>k. Re (tensor_data (data f) ! (k * (hw + 1)))) [0..<hw]))"

text \<open>A Field as its constructor leaves it: the planar shape is the last two axes of the
  data (\<open>data.shape[-2:]\<close>); the data of a PolarizedField has an axis of size 3 before
  them, the data of a CoherenceField is of shape \<open>shape + shape\<close>.\<close>

definition field_wf :: "field \<Rightarrow> bool" where
  "field_wf f =
     (let s = tensor_shape (data f); n = length s in
      tensor_wf (data f) \<and> 2 \<le> n
      \<and> drop (n - 2) s = [fst (shape f), snd (shape f)]
      \<and> (case field_class f of
            Field \<Rightarrow> True
          | PolarizedField \<Rightarrow> 3 \<le> n \<and> s ! (n - 3) = 3
          | CoherenceField \<Rightarrow> s = [fst (shape f), snd (shape f), fst (shape f), snd (shape f)]))"

text \<open>Modelled from the spec: \<open>Field.power\<close> (fields.py is missing), "scalar total power =
  sum of intensity times cell_area".\<close>

definition power :: "field \<Rightarrow> real" where
  "power f = sum_list (tensor_data (intensity f)) * cell_area f"

text \<open>Modelled from the spec: \<open>Field.normalize\<close> (fields.py is missing). "returns a new
  Field scaled so power() == target_power; fails if current power is zero (division by
  zero) -- this must be validated and reported, not silently produce NaN"; the error is
  a value error ("Value/validation errors: ... normalization of a zero-power field").
  The intensity is quadratic in the data of a Field or PolarizedField and linear in the
  data of a CoherenceField, which fixes the factor.\<close>

definition normalize :: "field \<Rightarrow> real \<Rightarrow> error + field" where
  "normalize f target_power =
     (if power f = 0 then Inl (ValueError ''Cannot normalize a field with zero power'')
      else Inr (f\<lparr>data := mul_scalar (data f)
             (complex_of_real
               (case field_class f of
                  CoherenceField \<Rightarrow> target_power / power f
                | _ \<Rightarrow> sqrt (target_power / power f)))\<rparr>))"

section \<open>Python values\<close>

text \<open>What a caller can pass where a Field or a tensor is expected: a Field-family
  instance, a tensor (whose \<open>data\<close> attribute is the tensor itself), or an object of
  another type (given by its type name).\<close>

datatype 'a pyobj = FieldObj (the_field: field) | TensorObj "'a tensor" | OtherObj string

text \<open>\<open>isinstance(obj, Field)\<close>: true of an instance of \<open>Field\<close> or of one of its subclasses.\<close>

definition isinstance_Field :: "'a pyobj \<Rightarrow> bool" where
  "isinstance_Field obj = (case obj of FieldObj f \<Rightarrow> True | _ \<Rightarrow> False)"

text \<open>\<open>isinstance(obj, Tensor)\<close>.\<close>

definition isinstance_Tensor :: "'a pyobj \<Rightarrow> bool" where
  "isinstance_Tensor obj = (case obj of TensorObj t \<Rightarrow> True | _ \<Rightarrow> False)"

fun type_name :: "'a pyobj \<Rightarrow> string" where
  "type_name (FieldObj f) =
     (case field_class f of Field \<Rightarrow> ''Field'' | PolarizedField \<Rightarrow> ''PolarizedField''
      | CoherenceField \<Rightarrow> ''CoherenceField'')"
| "type_name (TensorObj t) = ''Tensor''"
| "type_name (OtherObj n) = n"

text \<open>Attribute access on the argument, as Python resolves it: only a Field has
  \<open>intensity()\<close> and \<open>data\<close>.\<close>

fun py_intensity :: "'a pyobj \<Rightarrow> error + real tensor" where
  "py_intensity (FieldObj f) = Inr (intensity f)"
| "py_intensity obj = Inl (AttributeError (type_name obj @ '' object has no attribute intensity''))"

fun py_data :: "complex pyobj \<Rightarrow> error + complex tensor" where
  "py_data (FieldObj f) = Inr (data f)"
| "py_data (TensorObj t) = Inr t"
| "py_data obj = Inl (AttributeError (type_name obj @ '' object has no attribute data''))"

section \<open>Elements (elements.py)\<close>

text \<open>Sequencing of statements that can raise: the first error ends the call.\<close>

definition bind_err :: "error + 'a \<Rightarrow> ('a \<Rightarrow> error + 'b) \<Rightarrow> error + 'b" where
  "bind_err m k = (case m of Inl e \<Rightarrow> Inl e | Inr v \<Rightarrow> k v)"

text \<open>
  \<open>Element.validate_field_geometry\<close>. \<open>geometry_str\<close> (planar_geometry.py, missing) is a
  parameter: the text it prints for a geometry is no contract of the specification.
\<close>

definition validate_field_geometry ::
  "(real \<Rightarrow> real \<Rightarrow> bool) \<Rightarrow> (planar_geometry \<Rightarrow> string) \<Rightarrow> 'g planar_geometry_scheme
     \<Rightarrow> 'a pyobj \<Rightarrow> error + unit" where
  "validate_field_geometry close geometry_str self field_arg =
     (if \<not> isinstance_Field field_arg then
        Inl (TypeError (''Expected field to be a Field, but got '' @ type_name field_arg @ ''.''))
      else if \<not> is_same_geometry close self (the_field field_arg) then
        Inl (ValueError (''Expected field to have same geometry as element:''
          @ [CHR 0x0A] @ ''Field geometry:   ''
          @ geometry_str (planar_geometry.truncate (the_field field_arg))
          @ [CHR 0x0A] @ ''Element geometry: '' @ geometry_str (planar_geometry.truncate self)))
      else Inr ())"

text \<open>
  \<open>ModulationElement\<close> and \<open>PolarizedModulationElement\<close>: the profile is a property of
  the subclass. \<open>Field.modulate\<close> and \<open>PolarizedField.polarized_modulate\<close> (fields.py,
  missing) are parameters of the model; on an argument that is no Field the method lookup
  is an AttributeError.
\<close>

record modulation_element = planar_geometry +
  modulation_profile :: "complex tensor"

record polarized_modulation_element = planar_geometry +
  polarized_modulation_profile :: "complex tensor"

fun py_method ::
  "string \<Rightarrow> (field \<Rightarrow> complex tensor \<Rightarrow> error + field) \<Rightarrow> 'a pyobj \<Rightarrow> complex tensor
     \<Rightarrow> error + field" where
  "py_method name method (FieldObj f) profile = method f profile"
| "py_method name method obj profile =
     Inl (AttributeError (type_name obj @ '' object has no attribute '' @ name))"

definition ModulationElement_forward ::
  "(real \<Rightarrow> real \<Rightarrow> bool) \<Rightarrow> (planar_geometry \<Rightarrow> string)
     \<Rightarrow> (field \<Rightarrow> complex tensor \<Rightarrow> error + field)
     \<Rightarrow> modulation_element \<Rightarrow> 'a pyobj \<Rightarrow> error + field" where
  "ModulationElement_forward close geometry_str modulate self field_arg =
     bind_err (validate_field_geometry close geometry_str self field_arg) (\<lambda>_.
       py_method ''modulate'' modulate field_arg (modulation_profile self))"

definition PolarizedModulationElement_forward ::
  "(real \<Rightarrow> real \<Rightarrow> bool) \<Rightarrow> (planar_geometry \<Rightarrow> string)
     \<Rightarrow> (field \<Rightarrow> complex tensor \<Rightarrow> error + field)
     \<Rightarrow> polarized_modulation_element \<Rightarrow> 'a pyobj \<Rightarrow> error + field" where
  "PolarizedModulationElement_forward close geometry_str polarized_modulate self field_arg =
     bind_err (validate_field_geometry close geometry_str self field_arg) (\<lambda>_.
       py_method ''polarized_modulate'' polarized_modulate field_arg
         (polarized_modulation_profile self))"

section \<open>Detectors (detectors.py)\<close>

definition Detector_forward ::
  "(real \<Rightarrow> real \<Rightarrow> bool) \<Rightarrow> (planar_geometry \<Rightarrow> string) \<Rightarrow> planar_geometry \<Rightarrow> 'a pyobj
     \<Rightarrow> error + real tensor" where
  "Detector_forward close geometry_str self field_arg =
     bind_err (validate_field_geometry close geometry_str self field_arg) (\<lambda>_.
     bind_err (py_intensity field_arg) (\<lambda>i.
       Inr (mul_scalar i (cell_area self))))"

text \<open>\<open>IntensityDetector\<close> and its subclass \<open>FieldDetector\<close> own a weight of shape
  \<open>(C, H, W)\<close>: real for the first (\<open>_weight_is_complex = False\<close>), complex for the second.\<close>

record 'a intensity_detector = planar_geometry +
  weight :: "'a tensor"

fun string_of_nat :: "nat \<Rightarrow> string" where
  "string_of_nat n =
     (if n < 10 then [''0123456789'' ! n]
      else string_of_nat (n div 10) @ [''0123456789'' ! (n mod 10)])"

text \<open>\<open>IntensityDetector._validate_weight\<close>. A \<open>Param\<close> wraps a tensor and is modelled as
  the tensor it wraps. The source returns nothing; the model hands back the tensor it has
  checked, which the constructor goes on to use.\<close>

definition validate_weight :: "'a pyobj \<Rightarrow> error + 'a tensor" where
  "validate_weight tensor_arg =
     (case tensor_arg of
        TensorObj t \<Rightarrow>
          if tensor_dim t \<noteq> 3 then
            Inl (ValueError (''Expected weight to be a 3D tensor, but got ''
              @ string_of_nat (tensor_dim t) @ ''D''))
          else Inr t
      | _ \<Rightarrow>
          Inl (TypeError (''Expected weight to be a tensor, but got '' @ type_name tensor_arg)))"

text \<open>Modelled from the spec: \<open>PlanarGeometry.__init__\<close> (planar_geometry.py is missing).
  "shape dimensions are positive integers; spacing components are strictly positive";
  "constructing with non-positive spacing ... fails with a validation error". The
  arguments are taken after the defaults (the process-wide spacing, the zero offset) have
  been filled in.\<close>

definition PlanarGeometry_init ::
  "nat \<times> nat \<Rightarrow> real \<Rightarrow> real \<times> real \<Rightarrow> real \<times> real \<Rightarrow> error + planar_geometry" where
  "PlanarGeometry_init shp z0 sp off =
     (if fst shp = 0 \<or> snd shp = 0 then Inl (ValueError ''Expected shape to be positive'')
      else if fst sp \<le> 0 \<or> snd sp \<le> 0 then Inl (ValueError ''Expected spacing to be positive'')
      else Inr \<lparr>shape = shp, z = z0, spacing = sp, offset = off\<rparr>)"

text \<open>Modelled from the spec: \<open>Field.__init__\<close> (fields.py is missing). "Fails with a type
  error if data is not a tensor-like object; fails with a dimensionality error if data's
  trailing shape does not match the expected rank for the Field subtype (2D for Field)";
  "data last two dimensions equal shape"; "wavelength (positive scalar)". A trailing
  shape of rank 2 is there when the data has at least two axes: the repository's tests
  build Fields from data of shape \<open>(3, 64, 64)\<close> and \<open>(3, 10, 12)\<close> and pass them through
  elements (test_elements.py, \<open>test_beam_splitter\<close>, \<open>TestModulatorClasses.setUp\<close>,
  \<open>test_len\<close>, \<open>test_element\<close>), and expect a ValueError for shape \<open>(10,)\<close>
  (test_fields.py, \<open>test_initialization\<close>). The order of the steps is the one of
  \<open>IntensityDetector.__init__\<close>; the propagation options are left out.\<close>

definition validate_data :: "complex pyobj \<Rightarrow> error + complex tensor" where
  "validate_data data_arg =
     (case data_arg of
        TensorObj t \<Rightarrow>
          if tensor_dim t < 2 then
            Inl (ValueError (''Expected data to be at least 2D, but got ''
              @ string_of_nat (tensor_dim t) @ ''D''))
          else Inr t
      | _ \<Rightarrow>
          Inl (TypeError (''Expected data to be a tensor, but got '' @ type_name data_arg)))"

definition Field_init ::
  "complex pyobj \<Rightarrow> real \<Rightarrow> real \<Rightarrow> real \<times> real \<Rightarrow> real \<times> real \<Rightarrow> error + field" where
  "Field_init data_arg wl z0 sp off =
     bind_err (validate_data data_arg) (\<lambda>d.
     bind_err (PlanarGeometry_init
                 (tensor_shape d ! (tensor_dim d - 2), tensor_shape d ! (tensor_dim d - 1))
                 z0 sp off) (\<lambda>g.
       if wl \<le> 0 then Inl (ValueError ''Expected wavelength to be positive'')
       else Inr (planar_geometry.extend g (field.fields Field d wl))))"

text \<open>\<open>IntensityDetector.__init__\<close>: the weight is validated, the geometry is built from
  \<open>weight.shape[1:]\<close>, the weight is registered.\<close>

definition IntensityDetector_init ::
  "'a pyobj \<Rightarrow> real \<Rightarrow> real \<times> real \<Rightarrow> real \<times> real \<Rightarrow> error + 'a intensity_detector" where
  "IntensityDetector_init weight_arg z0 sp off =
     bind_err (validate_weight weight_arg) (\<lambda>w.
     bind_err (PlanarGeometry_init (tensor_shape w ! 1, tensor_shape w ! 2) z0 sp off) (\<lambda>g.
       Inr (planar_geometry.extend g (intensity_detector.fields w))))"

definition IntensityDetector_forward ::
  "(real \<Rightarrow> real \<Rightarrow> bool) \<Rightarrow> (planar_geometry \<Rightarrow> string) \<Rightarrow> real intensity_detector
     \<Rightarrow> 'a pyobj \<Rightarrow> error + real tensor" where
  "IntensityDetector_forward close geometry_str self field_arg =
     bind_err (validate_field_geometry close geometry_str self field_arg) (\<lambda>_.
     bind_err (py_intensity field_arg) (\<lambda>i.
     bind_err (flatten_m2 i) (\<lambda>intensity_flat.
     bind_err (flatten_m2 (weight self)) (\<lambda>weight_flat.
     bind_err (linear intensity_flat weight_flat) (\<lambda>out.
       Inr (mul_scalar out (cell_area self)))))))"

definition FieldDetector_forward ::
  "(real \<Rightarrow> real \<Rightarrow> bool) \<Rightarrow> (planar_geometry \<Rightarrow> string) \<Rightarrow> complex intensity_detector
     \<Rightarrow> complex pyobj \<Rightarrow> error + real tensor" where
  "FieldDetector_forward close geometry_str self field_arg =
     bind_err (validate_field_geometry close geometry_str self field_arg) (\<lambda>_.
     bind_err (py_data field_arg) (\<lambda>d.
     bind_err (flatten_m2 d) (\<lambda>data_flat.
     bind_err (flatten_m2 (weight self)) (\<lambda>weight_flat.
     bind_err (linear data_flat weight_flat) (\<lambda>out.
       Inr (tensor_map abs_square (mul_scalar out (complex_of_real (cell_area self)))))))))"

text \<open>A sample \<open>geometry_str\<close>, for the concrete runs below: it prints the planar shape.\<close>

definition show_geometry :: "planar_geometry \<Rightarrow> string" where
  "show_geometry g = string_of_nat (fst (shape g)) @ ''x'' @ string_of_nat (snd (shape g))"

section \<open>Elementwise and outer products\<close>

text \<open>Elementwise operation on two tensors of the same shape.\<close>

definition tensor_map2 :: "('a \<Rightarrow> 'b \<Rightarrow> 'c) \<Rightarrow> 'a tensor \<Rightarrow> 'b tensor \<Rightarrow> 'c tensor" where
  "tensor_map2 f a b = Tensor (tensor_shape a) (map2 f (tensor_data a) (tensor_data b))"

text \<open>The elements \<open>f a b\<close> for every \<open>a\<close> of the first list and every \<open>b\<close> of the second,
  the second index running fastest: the row-major data of a broadcast of \<open>a[..., None]\<close>
  against \<open>b[None, ...]\<close>.\<close>

definition outer_list :: "('a \<Rightarrow> 'b \<Rightarrow> 'c) \<Rightarrow> 'a list \<Rightarrow> 'b list \<Rightarrow> 'c list" where
  "outer_list f xs ys = concat (map (\<lambda>a. map (f a) ys) xs)"

text \<open>Modelled from the spec: \<open>outer2d\<close> (functional.py is missing), the "outer tensor
  product over both fields' grids": \<open>out[i, j, k, l] = vec1[i, j] * conj(vec2[k, l])\<close>.
  The first argument is that product of two elements.\<close>

definition outer2d :: "('a \<Rightarrow> 'a \<Rightarrow> 'b) \<Rightarrow> 'a tensor \<Rightarrow> 'a tensor \<Rightarrow> 'b tensor" where
  "outer2d mul_conj vec1 vec2 =
     Tensor (tensor_shape vec1 @ tensor_shape vec2)
       (outer_list mul_conj (tensor_data vec1) (tensor_data vec2))"

section \<open>Coherent fields and their mutual coherence (fields.py, modelled from the specification)\<close>

text \<open>The product \<open>a * conj(b)\<close> of \<open>outer2d\<close> on complex elements.\<close>

definition mul_cnj :: "complex \<Rightarrow> complex \<Rightarrow> complex" where
  "mul_cnj a b = a * cnj b"

text \<open>\<open>CoherenceField(outer2d(psi, psi), wavelength, z, spacing, offset)\<close> for the data,
  the wavelength and the geometry of a Field, as \<open>TestSpatialCoherence.setUp\<close> builds it.\<close>

definition CoherenceField_of :: "field \<Rightarrow> field" where
  "CoherenceField_of f =
     f\<lparr>field_class := CoherenceField, data := outer2d mul_cnj (data f) (data f)\<rparr>"

text \<open>Modelled from the spec: \<open>Field.modulate\<close> (fields.py is missing). "elementwise
  multiplication of data by a supplied complex profile of matching planar shape; returns
  a new Field of the same subtype and geometry, wavelength preserved"; on a
  CoherenceField "modulation act[s] on both coordinate pairs", the profile on the first
  pair and its conjugate on the second. A profile of another shape is an error.\<close>

definition modulate :: "field \<Rightarrow> complex tensor \<Rightarrow> error + field" where
  "modulate f profile =
     (let s = tensor_shape (data f); n = length s; hw = fst (shape f) * snd (shape f);
          m = tensor_data profile in
      if tensor_shape profile \<noteq> [fst (shape f), snd (shape f)] \<or> \<not> tensor_wf profile then
        Inl (RuntimeError ''The size of the profile must match the planar shape of the field'')
      else
        Inr (f\<lparr>data :=
          (case field_class f of
             CoherenceField \<Rightarrow> Tensor s (map2 (*) (tensor_data (data f)) (outer_list mul_cnj m m))
           | _ \<Rightarrow>
               Tensor s (concat (map (\<lambda>row. map2 (*) row m)
                 (tensor_rows (prod_list (take (n - 2) s)) hw (tensor_data (data f))))))\<rparr>))"

text \<open>Modelled from the spec: \<open>Field.propagate\<close> (fields.py and the propagation engine
  are missing). The diffraction algorithm is the parameter \<open>propagator\<close>: for a
  wavelength, a source geometry and a destination geometry it either fails (the
  destination lies outside the propagated extent, a condition on the geometries) or
  gives the map from the row-major samples of one scalar plane on the source grid to the
  samples on the destination grid. A Field or PolarizedField is propagated plane by
  plane. For a CoherenceField "the 4D mutual-coherence tensor is propagated by applying
  the scalar one-field propagator to the first coordinate pair and its phase-conjugate to
  the second coordinate pair".\<close>

definition coherence_apply ::
  "(complex list \<Rightarrow> complex list) \<Rightarrow> nat \<Rightarrow> nat \<Rightarrow> complex list \<Rightarrow> complex list" where
  "coherence_apply P n m d =
     (let cols = map (\<lambda>q. map (\<lambda>p. d ! (p * n + q)) [0..<n]) [0..<n];
          cols1 = map P cols;
          rows1 = map (\<lambda>p. map (\<lambda>q. cols1 ! q ! p) [0..<n]) [0..<m];
          rows2 = map (\<lambda>r. map cnj (P (map cnj r))) rows1
      in concat rows2)"

definition propagate ::
  "(real \<Rightarrow> planar_geometry \<Rightarrow> planar_geometry \<Rightarrow> error + (complex list \<Rightarrow> complex list))
     \<Rightarrow> field \<Rightarrow> planar_geometry \<Rightarrow> error + field" where
  "propagate propagator f dest =
     bind_err (propagator (wavelength f) (planar_geometry.truncate f) dest) (\<lambda>P.
       let s = tensor_shape (data f); n = length s;
           hw = fst (shape f) * snd (shape f);
           dest_hw = fst (shape dest) * snd (shape dest);
           dest_dims = [fst (shape dest), snd (shape dest)]
       in Inr (f\<lparr>shape := shape dest, z := z dest, spacing := spacing dest, offset := offset dest,
                 data :=
                   (case field_class f of
                      CoherenceField \<Rightarrow>
                        Tensor (dest_dims @ dest_dims) (coherence_apply P hw dest_hw (tensor_data (data f)))
                    | _ \<Rightarrow>
                        Tensor (take (n - 2) s @ dest_dims)
                          (concat (map P (tensor_rows (prod_list (take (n - 2) s)) hw
                             (tensor_data (data f))))))\<rparr>))"

text \<open>What is assumed of the diffraction algorithm: each map it gives commutes with the
  multiplication by a complex scalar (a diffraction integral is linear in the field) and
  maps one source plane to one destination plane.\<close>

definition propagator_linear ::
  "(real \<Rightarrow> planar_geometry \<Rightarrow> planar_geometry \<Rightarrow> error + (complex list \<Rightarrow> complex list)) \<Rightarrow> bool" where
  "propagator_linear propagator =
     (\<forall>wl src dest P. propagator wl src dest = Inr P \<longrightarrow>
        (\<forall>c v. P (map ((*) c) v) = map ((*) c) (P v))
        \<and> (\<forall>v. length v = fst (shape src) * snd (shape src)
               \<longrightarrow> length (P v) = fst (shape dest) * snd (shape dest)))"

text \<open>A sample propagator, for the concrete runs below: every destination sample is the
  sum of the source samples; it fails when the destination is behind the source.\<close>

definition sum_propagator ::
  "real \<Rightarrow> planar_geometry \<Rightarrow> planar_geometry \<Rightarrow> error + (complex list \<Rightarrow> complex list)" where
  "sum_propagator wl src dest =
     (if z dest < z src then Inl (ValueError ''destination behind the source'')
      else Inr (\<lambda>v. replicate (fst (shape dest) * snd (shape dest)) (sum_list v)))"

section \<open>Angular-spectrum padding (propagation engine, modelled from the specification)\<close>

text \<open>Modelled from the spec: the padding step of the angular-spectrum method (the
  propagation engine is missing). "Before transforming, the source grid is zero-padded by
  asm_pad_factor per axis (each axis's padded size = original x (1 + 2 x pad_factor))":
  \<open>pad_factor\<close> times the axis length is added on each side of each axis, as
  \<open>torch.nn.functional.pad\<close> does on the rows of one plane.\<close>

definition padded_shape :: "nat \<times> nat \<Rightarrow> nat \<times> nat \<Rightarrow> nat \<times> nat" where
  "padded_shape pad shp = ((1 + 2 * fst pad) * fst shp, (1 + 2 * snd pad) * snd shp)"

definition asm_pad :: "nat \<times> nat \<Rightarrow> nat \<times> nat \<Rightarrow> complex list \<Rightarrow> complex list" where
  "asm_pad pad shp v =
     (let n0 = fst shp; n1 = snd shp;
          zero_row = replicate ((1 + 2 * snd pad) * n1) 0
      in concat (replicate (fst pad * n0) zero_row
           @ map (\<lambda>row. replicate (snd pad * n1) 0 @ row @ replicate (snd pad * n1) 0)
               (tensor_rows n0 n1 v)
           @ replicate (fst pad * n0) zero_row))"

text \<open>Modelled from the spec: the angular-spectrum propagator (missing). Everything
  after the padding (the Fourier transform, the transfer function, the inverse transform,
  the resampling onto the destination grid and its bounds check) is the parameter
  \<open>asm_core\<close>, which sees the geometry of the padded grid: the source geometry with the
  padded shape, the padding being the same on both sides of an axis.\<close>

definition asm_propagator ::
  "(real \<Rightarrow> planar_geometry \<Rightarrow> planar_geometry \<Rightarrow> error + (complex list \<Rightarrow> complex list))
     \<Rightarrow> nat \<times> nat
     \<Rightarrow> real \<Rightarrow> planar_geometry \<Rightarrow> planar_geometry \<Rightarrow> error + (complex list \<Rightarrow> complex list)" where
  "asm_propagator asm_core asm_pad_factor wl src dest =
     bind_err (asm_core wl (src\<lparr>shape := padded_shape asm_pad_factor (shape src)\<rparr>) dest) (\<lambda>K.
       Inr (\<lambda>v. K (asm_pad asm_pad_factor (shape src) v)))"

text \<open>The field of \<open>test_asm_pad_factor\<close>: a grid of zeros of the padded size with the same
  spacing, in which the block
  \<open>[p0 * N0 : (p0 + 1) * N0, p1 * N1 : (p1 + 1) * N1]\<close> is set to the data.\<close>

definition zero_embed :: "nat \<times> nat \<Rightarrow> nat \<times> nat \<Rightarrow> complex list \<Rightarrow> complex list" where
  "zero_embed pad shp v =
     (let n0 = fst shp; n1 = snd shp; p0 = fst pad; p1 = snd pad in
      concat (map (\<lambda>i. map (\<lambda>j.
          if p0 * n0 \<le> i \<and> i < (p0 + 1) * n0 \<and> p1 * n1 \<le> j \<and> j < (p1 + 1) * n1
          then v ! ((i - p0 * n0) * n1 + (j - p1 * n1)) else 0)
        [0..<snd (padded_shape pad shp)]) [0..<fst (padded_shape pad shp)]))"

definition Field_zero_embed :: "nat \<times> nat \<Rightarrow> field \<Rightarrow> field" where
  "Field_zero_embed pad f =
     f\<lparr>shape := padded_shape pad (shape f),
       data := Tensor [fst (padded_shape pad (shape f)), snd (padded_shape pad (shape f))]
                 (zero_embed pad (shape f) (tensor_data (data f)))\<rparr>"

section \<open>Doubles with their range\<close>

text \<open>
  The profile generators are where a result can leave the range of a double, so their
  arithmetic is modelled with that range. A double is a finite real, an infinity or a NaN.
  A finite result of magnitude at least \<open>2^1024 - 2^970\<close> (what rounds above the largest
  double) overflows to an infinity; a product, quotient, exponential or Bessel value of
  magnitude at most \<open>2^-1075\<close> (half the smallest subnormal) underflows to zero; a sum of
  two doubles never underflows. Within the range a result is kept as it is: rounding to
  53 bits is not modelled. Zeros are not signed: every zero divisor met in the sources
  below is \<open>+0\<close>.
\<close>

datatype double = is_finite: Fin (fin_val: real) | PInf | NInf | NaN

definition overflow_threshold :: real where
  "overflow_threshold = 2 ^ 1024 - 2 ^ 970"

definition underflow_threshold :: real where
  "underflow_threshold = 1 / 2 ^ 1075"

text \<open>The smallest normal double.\<close>

definition min_normal :: real where
  "min_normal = 1 / 2 ^ 1022"

text \<open>The double of a real result.\<close>

definition fl :: "real \<Rightarrow> double" where
  "fl x = (if overflow_threshold \<le> x then PInf
           else if x \<le> - overflow_threshold then NInf
           else if \<bar>x\<bar> \<le> underflow_threshold then Fin 0
           else Fin x)"

fun dneg :: "double \<Rightarrow> double" where
  "dneg (Fin a) = Fin (- a)"
| "dneg PInf = NInf"
| "dneg NInf = PInf"
| "dneg NaN = NaN"

fun dadd :: "double \<Rightarrow> double \<Rightarrow> double" where
  "dadd (Fin a) (Fin b) =
     (if overflow_threshold \<le> a + b then PInf
      else if a + b \<le> - overflow_threshold then NInf
      else Fin (a + b))"
| "dadd NaN _ = NaN"
| "dadd _ NaN = NaN"
| "dadd PInf NInf = NaN"
| "dadd NInf PInf = NaN"
| "dadd PInf _ = PInf"
| "dadd _ PInf = PInf"
| "dadd NInf _ = NInf"
| "dadd _ NInf = NInf"

definition dsub :: "double \<Rightarrow> double \<Rightarrow> double" where
  "dsub a b = dadd a (dneg b)"

fun dmul :: "double \<Rightarrow> double \<Rightarrow> double" where
  "dmul (Fin a) (Fin b) = fl (a * b)"
| "dmul NaN _ = NaN"
| "dmul _ NaN = NaN"
| "dmul (Fin a) PInf = (if a = 0 then NaN else if 0 < a then PInf else NInf)"
| "dmul (Fin a) NInf = (if a = 0 then NaN else if 0 < a then NInf else PInf)"
| "dmul PInf (Fin b) = (if b = 0 then NaN else if 0 < b then PInf else NInf)"
| "dmul NInf (Fin b) = (if b = 0 then NaN else if 0 < b then NInf else PInf)"
| "dmul PInf PInf = PInf"
| "dmul PInf NInf = NInf"
| "dmul NInf PInf = NInf"
| "dmul NInf NInf = PInf"

fun ddiv :: "double \<Rightarrow> double \<Rightarrow> double" where
  "ddiv (Fin a) (Fin b) =
     (if b = 0 then (if a = 0 then NaN else if 0 < a then PInf else NInf)
      else fl (a / b))"
| "ddiv NaN _ = NaN"
| "ddiv _ NaN = NaN"
| "ddiv (Fin a) _ = Fin 0"
| "ddiv PInf (Fin b) = (if 0 \<le> b then PInf else NInf)"
| "ddiv NInf (Fin b) = (if 0 \<le> b then NInf else PInf)"
| "ddiv _ _ = NaN"

fun dsqrt :: "double \<Rightarrow> double" where
  "dsqrt (Fin a) = (if a < 0 then NaN else Fin (sqrt a))"
| "dsqrt PInf = PInf"
| "dsqrt NInf = NaN"
| "dsqrt NaN = NaN"

fun dexp :: "double \<Rightarrow> double" where
  "dexp (Fin a) = fl (exp a)"
| "dexp PInf = PInf"
| "dexp NInf = Fin 0"
| "dexp NaN = NaN"

text \<open>The Bessel function of the first kind of order one, by its power series, and
  \<open>torch.special.bessel_j1\<close> on doubles. Its value at an infinity is not used by any
  statement below.\<close>

definition bessel_j1_series :: "real \<Rightarrow> real" where
  "bessel_j1_series x = (\<Sum>k. (- 1) ^ k / (fact k * fact (Suc k)) * (x / 2) ^ (2 * k + 1))"

fun bessel_j1 :: "double \<Rightarrow> double" where
  "bessel_j1 (Fin a) = fl (bessel_j1_series a)"
| "bessel_j1 _ = NaN"

text \<open>\<open>v ** 2\<close> on a Python float: \<open>float.__pow__\<close> raises an OverflowError when the
  result overflows, and returns zero when it underflows.\<close>

definition py_square :: "real \<Rightarrow> error + double" where
  "py_square v =
     (if overflow_threshold \<le> v * v then Inl (OverflowError ''(34, Numerical result out of range)'')
      else Inr (fl (v * v)))"

section \<open>Profile generators (profiles/special.py, profiles/spatial_coherence.py)\<close>

text \<open>Modelled from the spec: \<open>PlanarGeometry.meshgrid\<close> (planar_geometry.py is missing).
  "returns two tensors (x,y) of physical coordinates, shape == shape, centered per
  offset"; "grid extent equals (shape-1)*spacing centered at offset"; the coordinates are
  doubles ("stored in a consistent numeric precision (double)").\<close>

definition meshgrid :: "'g planar_geometry_scheme \<Rightarrow> double tensor \<times> double tensor" where
  "meshgrid g =
     (let n0 = fst (shape g); n1 = snd (shape g);
          xs = map (\<lambda>i. dadd (Fin (fst (offset g)))
                          (dmul (Fin (real i - (real n0 - 1) / 2)) (Fin (fst (spacing g))))) [0..<n0];
          ys = map (\<lambda>j. dadd (Fin (snd (offset g)))
                          (dmul (Fin (real j - (real n1 - 1) / 2)) (Fin (snd (spacing g))))) [0..<n1]
      in (Tensor [n0, n1] (outer_list (\<lambda>u v. u) xs ys),
          Tensor [n0, n1] (outer_list (\<lambda>u v. v) xs ys)))"

text \<open>The formula \<open>(2 * bessel_j1(s) / s) ** 2\<close> of \<open>airy\<close> at one entry \<open>s\<close> of \<open>scaled_r\<close>.\<close>

definition airy_formula :: "double \<Rightarrow> double" where
  "airy_formula s = (let q = ddiv (dmul (Fin 2) (bessel_j1 s)) s in dmul q q)"

text \<open>
  \<open>airy\<close>. \<open>r / scale\<close> and the division by \<open>scaled_r\<close> are tensor divisions; the last
  statement overwrites the entries where \<open>r == 0\<close>.
\<close>

definition airy :: "nat \<times> nat \<Rightarrow> real \<Rightarrow> real \<times> real \<Rightarrow> real \<times> real \<Rightarrow> error + double tensor" where
  "airy shp scale sp off =
     bind_err (PlanarGeometry_init shp 0 sp off) (\<lambda>g.
       let (x, y) = meshgrid g;
           r = tensor_map dsqrt
                 (tensor_map2 dadd (tensor_map (\<lambda>v. dmul v v) x) (tensor_map (\<lambda>v. dmul v v) y));
           scaled_r = tensor_map (\<lambda>v. ddiv v (Fin scale)) r;
           airy_pattern = tensor_map airy_formula scaled_r
       in Inr (tensor_map2 (\<lambda>rv a. if rv = Fin 0 then Fin 1 else a) r airy_pattern))"

text \<open>\<open>x.unsqueeze(-1).unsqueeze(-1) - x.unsqueeze(0).unsqueeze(0)\<close>:
  \<open>out[i, j, k, l] = x[i, j] - x[k, l]\<close>.\<close>

definition pairwise_diff :: "double tensor \<Rightarrow> double tensor" where
  "pairwise_diff x =
     Tensor (tensor_shape x @ tensor_shape x) (outer_list dsub (tensor_data x) (tensor_data x))"

text \<open>\<open>schell_model\<close>. The two callables take tensors and can raise; \<open>** 0.5\<close> is the
  square root; on real intensities the conjugation of \<open>outer2d\<close> is the identity.\<close>

definition schell_model ::
  "nat \<times> nat \<Rightarrow> (double tensor \<Rightarrow> double tensor \<Rightarrow> error + double tensor)
     \<Rightarrow> (double tensor \<Rightarrow> double tensor \<Rightarrow> error + double tensor)
     \<Rightarrow> real \<times> real \<Rightarrow> real \<times> real \<Rightarrow> error + double tensor" where
  "schell_model shp intensity_func coherence_func sp off =
     bind_err (PlanarGeometry_init shp 0 sp off) (\<lambda>g.
       let (x, y) = meshgrid g in
       bind_err (intensity_func x y) (\<lambda>intensity.
         let x_diff = pairwise_diff x; y_diff = pairwise_diff y in
         bind_err (coherence_func x_diff y_diff) (\<lambda>coherence.
           Inr (tensor_map2 dmul (tensor_map dsqrt (outer2d dmul intensity intensity)) coherence))))"

text \<open>
  The two closures of \<open>gaussian_schell_model\<close>. \<open>waist_radius\<close> and \<open>coherence_width\<close>
  are Python floats, so \<open>waist_radius**2\<close>, \<open>torch.pi * waist_radius**2\<close>,
  \<open>2 / (...)\<close> and \<open>2 * coherence_width**2\<close> are Python operations: the power raises
  on overflow, the division raises on a zero divisor, the products do not raise. The
  left factor \<open>2 / (torch.pi * waist_radius**2)\<close> is evaluated before the right one. The
  other operations have a tensor operand and are tensor operations. The boolean tensor
  \<open>(x == 0) & (y == 0)\<close> counts as 1 and 0 in the product that \<open>schell_model\<close> forms.
\<close>

definition gsm_coherence_func :: "real \<Rightarrow> double tensor \<Rightarrow> double tensor \<Rightarrow> error + double tensor" where
  "gsm_coherence_func coherence_width x y =
     (if coherence_width = 0 then
        Inr (tensor_map2 (\<lambda>u v. if u = Fin 0 \<and> v = Fin 0 then Fin 1 else Fin 0) x y)
      else
        bind_err (py_square coherence_width) (\<lambda>c2.
          Inr (tensor_map2
            (\<lambda>u v. dexp (ddiv (dneg (dadd (dmul u u) (dmul v v))) (dmul (Fin 2) c2))) x y)))"

definition gsm_intensity_func :: "real \<Rightarrow> double tensor \<Rightarrow> double tensor \<Rightarrow> error + double tensor" where
  "gsm_intensity_func waist_radius x y =
     bind_err (py_square waist_radius) (\<lambda>w2.
       if dmul (Fin pi) w2 = Fin 0 then Inl (ZeroDivisionError ''float division by zero'')
       else
         bind_err (py_square waist_radius) (\<lambda>w2'.
           Inr (tensor_map2
             (\<lambda>u v. dmul (ddiv (Fin 2) (dmul (Fin pi) w2))
                      (dexp (ddiv (dneg (dmul (Fin 2) (dadd (dmul u u) (dmul v v)))) w2'))) x y)))"

definition gaussian_schell_model ::
  "nat \<times> nat \<Rightarrow> real \<Rightarrow> real \<Rightarrow> real \<times> real \<Rightarrow> real \<times> real \<Rightarrow> error + double tensor" where
  "gaussian_schell_model shp waist_radius coherence_width sp off =
     schell_model shp (gsm_intensity_func waist_radius) (gsm_coherence_func coherence_width) sp off"

text \<open>The coordinates \<open>x[i, j]\<close> and \<open>y[i, j]\<close> of a grid point, and its radial distance
  \<open>r[i, j] = sqrt(x**2 + y**2)\<close> as \<open>airy\<close> computes it.\<close>

definition grid_x :: "'g planar_geometry_scheme \<Rightarrow> nat \<Rightarrow> nat \<Rightarrow> double" where
  "grid_x g i j = tensor_at (fst (meshgrid g)) [i, j]"

definition grid_y :: "'g planar_geometry_scheme \<Rightarrow> nat \<Rightarrow> nat \<Rightarrow> double" where
  "grid_y g i j = tensor_at (snd (meshgrid g)) [i, j]"

definition grid_radius :: "'g planar_geometry_scheme \<Rightarrow> nat \<Rightarrow> nat \<Rightarrow> double" where
  "grid_radius g i j =
     dsqrt (dadd (dmul (grid_x g i j) (grid_x g i j)) (dmul (grid_y g i j) (grid_y g i j)))"

text \<open>The Gaussian intensity \<open>2 / (pi * w0**2) * exp(-(2 * (x**2 + y**2)) / w0**2)\<close> at a
  point, in the arithmetic of doubles.\<close>

definition gaussian_intensity :: "real \<Rightarrow> double \<Rightarrow> double \<Rightarrow> double" where
  "gaussian_intensity w0 u v =
     dmul (ddiv (Fin 2) (dmul (Fin pi) (fl (w0 * w0))))
       (dexp (ddiv (dneg (dmul (Fin 2) (dadd (dmul u u) (dmul v v)))) (fl (w0 * w0))))"

section \<open>Properties of the model\<close>

lemma isinstance_Field_simps [simp]:
  "isinstance_Field (FieldObj f)" "\<not> isinstance_Field (TensorObj t)"
  "\<not> isinstance_Field (OtherObj n)"
  by (simp_all add: isinstance_Field_def)

lemma dot_nth:
  fixes xs :: "'a::comm_semiring_0 list"
  assumes "length xs = length ys"
  shows "dot xs ys = (\<Sum>k<length xs. xs ! k * ys ! k)"
proof -
  have "dot xs ys = (\<Sum>k = 0..<length (map2 (*) xs ys). map2 (*) xs ys ! k)"
    unfolding dot_def by (rule sum_list_sum_nth)
  also have "\<dots> = (\<Sum>k = 0..<length xs. xs ! k * ys ! k)"
    using assms by (intro sum.cong) auto
  finally show ?thesis by (simp add: lessThan_atLeast0)
qed

lemma dot_rows:
  fixes xs :: "'a::comm_semiring_0 list"
  assumes "b * k + k \<le> length xs" "c * k + k \<le> length ws"
  shows "dot (take k (drop (b * k) xs)) (take k (drop (c * k) ws))
           = (\<Sum>j<k. xs ! (b * k + j) * ws ! (c * k + j))"
proof -
  have "dot (take k (drop (b * k) xs)) (take k (drop (c * k) ws))
      = (\<Sum>j<k. take k (drop (b * k) xs) ! j * take k (drop (c * k) ws) ! j)"
    using assms by (subst dot_nth) auto
  also have "\<dots> = (\<Sum>j<k. xs ! (b * k + j) * ws ! (c * k + j))"
    using assms by (intro sum.cong) auto
  finally show ?thesis .
qed

lemma sum_grid:
  fixes g :: "nat \<Rightarrow> 'a::comm_monoid_add"
  shows "(\<Sum>k<H * W. g k) = (\<Sum>i<H. \<Sum>j<W. g (i * W + j))"
proof (induction H)
  case 0
  show ?case by simp
next
  case (Suc H)
  have shift: "(\<Sum>k = H * W..<H * W + W. g k) = (\<Sum>j = 0..<W. g (H * W + j))"
    using sum.shift_bounds_nat_ivl[of g 0 "H * W" W] by (simp add: add.commute)
  have "(\<Sum>k<Suc H * W. g k) = (\<Sum>k = 0..<H * W + W. g k)"
    by (simp add: add.commute lessThan_atLeast0)
  also have "\<dots> = (\<Sum>k = 0..<H * W. g k) + (\<Sum>k = H * W..<H * W + W. g k)"
    by (rule sum.atLeastLessThan_concat[symmetric]) simp_all
  also have "\<dots> = (\<Sum>k<H * W. g k) + (\<Sum>j<W. g (H * W + j))"
    by (simp add: shift lessThan_atLeast0)
  finally show ?case using Suc by simp
qed


lemma linear_vector:
  fixes x w :: "'a::comm_semiring_0 tensor"
  assumes "tensor_shape x = [K]" "length (tensor_data x) = K"
    and "tensor_shape w = [C, K]" "length (tensor_data w) = C * K"
  shows "linear x w = Inr (Tensor [C]
           (map (\<lambda>c. \<Sum>k<K. tensor_data x ! k * tensor_data w ! (c * K + k)) [0..<C]))"
proof -
  have row: "dot (take K (tensor_data x)) (take K (drop (c * K) (tensor_data w)))
               = (\<Sum>k<K. tensor_data x ! k * tensor_data w ! (c * K + k))" if "c < C" for c
  proof -
    have "c * K + K \<le> C * K"
      using that by (metis Suc_leI mult_Suc mult_le_mono1 add.commute)
    then show ?thesis
      using dot_rows[of 0 K "tensor_data x" c "tensor_data w"] assms by simp
  qed
  show ?thesis
    using assms row by (simp add: linear_def tensor_rows_def comp_def)
qed

lemma init_detector:
  assumes "IntensityDetector_init (TensorObj w) z0 sp off = Inr det"
  shows "weight det = w \<and> tensor_dim w = 3
         \<and> shape det = (tensor_shape w ! 1, tensor_shape w ! 2) \<and> spacing det = sp"
  using assms
  by (auto simp: IntensityDetector_init_def bind_err_def validate_weight_def
        PlanarGeometry_init_def planar_geometry.extend_def intensity_detector.fields_def
        split: if_splits)

lemma validated_shape:
  assumes "validate_field_geometry close gs self (FieldObj f) = Inr u"
  shows "shape f = shape self"
  using assms by (auto simp: validate_field_geometry_def is_same_geometry_def split: if_splits)

lemma field_2d_shape:
  assumes "field_wf f" "tensor_dim (data f) = 2"
  shows "tensor_shape (data f) = [fst (shape f), snd (shape f)]
         \<and> length (tensor_data (data f)) = fst (shape f) * snd (shape f)"
  using assms by (auto simp: field_wf_def tensor_wf_def tensor_dim_def Let_def)

lemma bind_err_Inl: "m = Inl e \<Longrightarrow> bind_err m k = Inl e"
  by (simp add: bind_err_def)

lemma length_outer_list [simp]: "length (outer_list f xs ys) = length xs * length ys"
  by (induction xs) (simp_all add: outer_list_def)

lemma outer_list_nth:
  assumes "p < length xs" "q < length ys"
  shows "outer_list f xs ys ! (p * length ys + q) = f (xs ! p) (ys ! q)"
  using assms
proof (induction xs arbitrary: p)
  case Nil
  then show ?case by simp
next
  case (Cons a xs)
  show ?case
  proof (cases p)
    case 0
    with Cons.prems show ?thesis
      by (simp add: outer_list_def nth_append)
  next
    case (Suc p')
    with Cons.prems have "p' < length xs" by simp
    from Cons.IH[OF this Cons.prems(2)] Suc show ?thesis
      by (simp add: outer_list_def nth_append)
  qed
qed

lemma grid_index_less:
  assumes "i < (H::nat)" "j < W"
  shows "i * W + j < H * W"
proof -
  have "i * W + j < i * W + W" using assms by simp
  also have "\<dots> = Suc i * W" by simp
  also have "\<dots> \<le> H * W" using assms by (intro mult_le_mono1) simp
  finally show ?thesis .
qed

lemma init_geometry:
  assumes "PlanarGeometry_init shp z0 sp off = Inr g"
  shows "shape g = shp" "spacing g = sp" "offset g = off" "z g = z0"
  using assms by (auto simp: PlanarGeometry_init_def split: if_splits)

lemma drop_last2:
  assumes "2 \<le> length s"
  shows "drop (length s - 2) s = [s ! (length s - 2), s ! (length s - 1)]"
proof (rule nth_equalityI)
  show "length (drop (length s - 2) s) = length [s ! (length s - 2), s ! (length s - 1)]"
    using assms by simp
next
  fix i assume "i < length (drop (length s - 2) s)"
  then have "i = 0 \<or> i = 1" using assms by auto
  then show "drop (length s - 2) s ! i = [s ! (length s - 2), s ! (length s - 1)] ! i"
  proof
    assume "i = 0" then show ?thesis using assms by simp
  next
    assume "i = 1"
    moreover have "length s - 2 + 1 = length s - 1" using assms by simp
    ultimately show ?thesis using assms by simp
  qed
qed

lemma map2_add_scale:
  fixes c :: real
  shows "map2 (+) (map ((*) c) xs) (map ((*) c) ys) = map ((*) c) (map2 (+) xs ys)"
  by (induction xs arbitrary: ys) (auto simp: distrib_left split: list.splits, case_tac ys, auto simp: distrib_left)

lemma sum_polarization_scale:
  "sum_polarization hw (map ((*) (c::real)) xs) = map ((*) c) (sum_polarization hw xs)"
  unfolding sum_polarization_def by (simp only: take_map drop_map map2_add_scale)

lemma sum_list_scale: "sum_list (map ((*) (c::real)) xs) = c * sum_list xs"
  by (induction xs) (simp_all add: distrib_left)

lemma abs_square_scale: "abs_square (v * complex_of_real c) = c\<^sup>2 * abs_square v"
  by (simp add: abs_square_def norm_mult power_mult_distrib mult.commute)

lemma intensity_scale:
  assumes wf: "field_wf f"
  shows "tensor_data (intensity (f\<lparr>data := mul_scalar (data f) (complex_of_real c)\<rparr>))
           = map ((*) (case field_class f of CoherenceField \<Rightarrow> c | _ \<Rightarrow> c\<^sup>2))
               (tensor_data (intensity f))"
proof (cases "field_class f")
  case Field
  then show ?thesis
    by (simp add: intensity_def mul_scalar_def tensor_map_def abs_square_scale comp_def)
next
  case PolarizedField
  have m: "sum_polarization hw (map (\<lambda>v. abs_square (v * complex_of_real c)) xs)
             = map ((*) (c\<^sup>2)) (sum_polarization hw (map abs_square xs))" for hw xs
  proof -
    have "map (\<lambda>v. abs_square (v * complex_of_real c)) xs = map ((*) (c\<^sup>2)) (map abs_square xs)"
      by (simp add: abs_square_scale)
    then show ?thesis by (simp only: sum_polarization_scale)
  qed
  show ?thesis
    using PolarizedField
    by (simp add: intensity_def mul_scalar_def tensor_map_def Let_def tensor_rows_def
          take_map drop_map m map_concat comp_def)
next
  case CoherenceField
  define hw where "hw = fst (shape f) * snd (shape f)"
  have len: "length (tensor_data (data f)) = hw * hw"
    using wf CoherenceField by (simp add: field_wf_def Let_def tensor_wf_def hw_def algebra_simps)
  have idx: "k * (hw + 1) < hw * hw" if "k < hw" for k
  proof -
    have "k * (hw + 1) = k * hw + k" by simp
    also have "\<dots> < hw * hw" using grid_index_less[OF that that] .
    finally show ?thesis .
  qed
  show ?thesis
    using CoherenceField len idx
    by (simp add: intensity_def mul_scalar_def tensor_map_def Let_def flip: hw_def)
qed

lemma power_scale:
  assumes "field_wf f"
  shows "power (f\<lparr>data := mul_scalar (data f) (complex_of_real c)\<rparr>)
           = (case field_class f of CoherenceField \<Rightarrow> c | _ \<Rightarrow> c\<^sup>2) * power f"
  by (simp add: power_def intensity_scale[OF assms] sum_list_scale cell_area_def)

lemma map_nth_fun: "map (\<lambda>k. f (xs ! k)) [0..<length xs] = map f xs"
  by (rule nth_equalityI) simp_all

lemma outer_list_diag:
  assumes "k < length xs"
  shows "outer_list f xs xs ! (k * (length xs + 1)) = f (xs ! k) (xs ! k)"
  using outer_list_nth[OF assms assms, of f] by (simp add: ac_simps)

lemma abs_square_mul_cnj: "Re (mul_cnj v v) = abs_square v"
  by (simp add: mul_cnj_def abs_square_def cmod_power2) (simp add: power2_eq_square)

lemma field_2d_wf:
  assumes "field_wf f" "tensor_dim (data f) = 2"
  shows "tensor_shape (data f) = [fst (shape f), snd (shape f)]"
    "length (tensor_data (data f)) = fst (shape f) * snd (shape f)"
  using field_2d_shape[OF assms] by simp_all

lemma intensity_CoherenceField_of:
  assumes wf: "field_wf f" and cls: "field_class f = Field" and d2: "tensor_dim (data f) = 2"
  shows "intensity (CoherenceField_of f) = intensity f"
proof -
  define psi where "psi = tensor_data (data f)"
  note sh = field_2d_wf[OF wf d2]
  have len: "length psi = fst (shape f) * snd (shape f)" using sh by (simp add: psi_def)
  have "map (\<lambda>k. Re (outer_list mul_cnj psi psi ! (k * (length psi + 1)))) [0..<length psi]
          = map (\<lambda>k. abs_square (psi ! k)) [0..<length psi]"
    by (intro map_cong refl) (simp only: outer_list_diag abs_square_mul_cnj set_upt atLeastLessThan_iff)
  also have "\<dots> = map abs_square psi" by (rule map_nth_fun)
  finally show ?thesis
    using cls sh len
    by (simp add: intensity_def CoherenceField_of_def outer2d_def tensor_map_def Let_def
          flip: psi_def)
qed


lemma outer_list_map:
  "outer_list f (map g xs) (map h ys) = outer_list (\<lambda>a b. f (g a) (h b)) xs ys"
  by (simp add: outer_list_def comp_def)

lemma outer_list_zip:
  assumes "length xs = length xs'" "length ys = length ys'"
  shows "map2 g (outer_list f xs ys) (outer_list f' xs' ys')
           = outer_list (\<lambda>a b. g (f (fst a) (fst b)) (f' (snd a) (snd b))) (zip xs xs') (zip ys ys')"
  using assms(1)
proof (induction xs xs' rule: list_induct2)
  case Nil
  show ?case by (simp add: outer_list_def)
next
  case (Cons a xs a' xs')
  have row: "map2 g (map (f a) ys) (map (f' a') ys')
      = map (\<lambda>b. g (f a (fst b)) (f' a' (snd b))) (zip ys ys')"
    by (simp add: zip_map1 zip_map2 case_prod_unfold)
  have "map2 g (outer_list f (a # xs) ys) (outer_list f' (a' # xs') ys')
      = map2 g (map (f a) ys @ outer_list f xs ys) (map (f' a') ys' @ outer_list f' xs' ys')"
    by (simp add: outer_list_def)
  also have "\<dots> = map2 g (map (f a) ys) (map (f' a') ys')
                   @ map2 g (outer_list f xs ys) (outer_list f' xs' ys')"
    using assms(2) by simp
  finally show ?case
    using Cons.IH row by (simp add: outer_list_def)
qed

lemma outer_list_modulate:
  assumes "length psi = length m"
  shows "outer_list mul_cnj (map2 (*) psi m) (map2 (*) psi m)
           = map2 (*) (outer_list mul_cnj psi psi) (outer_list mul_cnj m m)"
proof -
  have "outer_list mul_cnj (map2 (*) psi m) (map2 (*) psi m)
      = outer_list (\<lambda>a b. mul_cnj (fst a * snd a) (fst b * snd b)) (zip psi m) (zip psi m)"
    by (simp add: outer_list_map case_prod_unfold)
  also have "(\<lambda>a b. mul_cnj (fst a * snd a) (fst b * snd b))
      = (\<lambda>a b :: complex \<times> complex. mul_cnj (fst a) (fst b) * mul_cnj (snd a) (snd b))"
    by (intro ext) (simp add: mul_cnj_def)
  finally show ?thesis
    using outer_list_zip[OF assms assms, of "(*)" mul_cnj mul_cnj] by simp
qed

lemma modulate_Field_2d:
  assumes wf: "field_wf f" and cls: "field_class f = Field" and d2: "tensor_dim (data f) = 2"
    and m: "tensor_shape m = [fst (shape f), snd (shape f)]" "tensor_wf m"
  shows "modulate f m =
           Inr (f\<lparr>data := Tensor [fst (shape f), snd (shape f)]
                  (map2 (*) (tensor_data (data f)) (tensor_data m))\<rparr>)"
  using field_2d_wf[OF wf d2] cls m
  by (simp add: modulate_def Let_def tensor_rows_def)

lemma modulate_CoherenceField_of:
  assumes wf: "field_wf f" and cls: "field_class f = Field" and d2: "tensor_dim (data f) = 2"
    and run: "modulate f m = Inr f'"
  shows "modulate (CoherenceField_of f) m = Inr (CoherenceField_of f')"
proof -
  have m: "tensor_shape m = [fst (shape f), snd (shape f)]" "tensor_wf m"
    using run by (auto simp: modulate_def Let_def split: if_splits)
  note sh = field_2d_wf[OF wf d2]
  have f': "f' = f\<lparr>data := Tensor [fst (shape f), snd (shape f)]
                  (map2 (*) (tensor_data (data f)) (tensor_data m))\<rparr>"
    using modulate_Field_2d[OF wf cls d2 m] run by simp
  have len: "length (tensor_data (data f)) = length (tensor_data m)"
    using sh m by (simp add: tensor_wf_def)
  show ?thesis
    using m sh
    by (simp add: modulate_def Let_def CoherenceField_of_def outer2d_def f'
          outer_list_modulate[OF len])
qed


lemma coherence_apply_outer:
  assumes hom: "\<And>c v. P (map ((*) c) v) = map ((*) c) (P v)"
    and n: "n = length psi" and m: "m = length (P psi)"
  shows "coherence_apply P n m (outer_list mul_cnj psi psi) = outer_list mul_cnj (P psi) (P psi)"
proof -
  define phi where "phi = P psi"
  define cols1 where "cols1 = map P (map (\<lambda>q. map (\<lambda>p. outer_list mul_cnj psi psi ! (p * n + q)) [0..<n]) [0..<n])"
  have col: "cols1 ! q = map ((*) (cnj (psi ! q))) phi" if "q < n" for q
  proof -
    have "map (\<lambda>p. outer_list mul_cnj psi psi ! (p * n + q)) [0..<n]
        = map (\<lambda>p. cnj (psi ! q) * psi ! p) [0..<n]"
      using that n by (intro map_cong refl) (simp add: outer_list_nth mul_cnj_def)
    also have "\<dots> = map ((*) (cnj (psi ! q))) psi"
      unfolding n by (rule map_nth_fun)
    finally show ?thesis
      using that by (simp add: cols1_def hom phi_def)
  qed
  have row: "map cnj (P (map cnj (map (\<lambda>q. cols1 ! q ! p) [0..<n]))) = map (mul_cnj (phi ! p)) phi"
    if "p < m" for p
  proof -
    have "map cnj (map (\<lambda>q. cols1 ! q ! p) [0..<n]) = map (\<lambda>q. cnj (phi ! p) * psi ! q) [0..<n]"
      using that m by (simp add: col phi_def)
    also have "\<dots> = map ((*) (cnj (phi ! p))) psi"
      unfolding n by (rule map_nth_fun)
    finally show ?thesis
      by (simp add: hom mul_cnj_def flip: phi_def)
  qed
  have rows_eq: "map (\<lambda>p. map cnj (P (map cnj (map (\<lambda>q. cols1 ! q ! p) [0..<n])))) [0..<m]
      = map (\<lambda>p. map (mul_cnj (phi ! p)) phi) [0..<m]"
  proof (rule map_cong[OF refl])
    fix p assume "p \<in> set [0..<m]"
    then have "p < m" by simp
    then show "map cnj (P (map cnj (map (\<lambda>q. cols1 ! q ! p) [0..<n]))) = map (mul_cnj (phi ! p)) phi"
      by (rule row)
  qed
  have "coherence_apply P n m (outer_list mul_cnj psi psi)
      = concat (map (\<lambda>p. map cnj (P (map cnj (map (\<lambda>q. cols1 ! q ! p) [0..<n])))) [0..<m])"
    by (simp add: coherence_apply_def Let_def cols1_def comp_def)
  also have "\<dots> = concat (map (\<lambda>p. map (mul_cnj (phi ! p)) phi) [0..<m])"
    by (simp only: rows_eq)
  also have "\<dots> = concat (map (\<lambda>a. map (mul_cnj a) phi) phi)"
    using map_nth_fun[of "\<lambda>a. map (mul_cnj a) phi" phi] m by (simp add: phi_def)
  finally show ?thesis
    by (simp add: outer_list_def phi_def)
qed

lemma propagate_CoherenceField_of:
  assumes wf: "field_wf f" and cls: "field_class f = Field" and d2: "tensor_dim (data f) = 2"
    and lin: "propagator_linear propagator"
    and run: "propagate propagator f dest = Inr f'"
  shows "propagate propagator (CoherenceField_of f) dest = Inr (CoherenceField_of f')
         \<and> field_wf f' \<and> field_class f' = Field \<and> tensor_dim (data f') = 2"
proof -
  note sh = field_2d_wf[OF wf d2]
  from run obtain P where P: "propagator (wavelength f) (planar_geometry.truncate f) dest = Inr P"
    by (auto simp: propagate_def bind_err_def split: sum.splits)
  from lin P have hom: "\<And>c v. P (map ((*) c) v) = map ((*) c) (P v)"
    and len: "\<And>v. length v = fst (shape f) * snd (shape f)
                \<Longrightarrow> length (P v) = fst (shape dest) * snd (shape dest)"
    by (auto simp: propagator_linear_def planar_geometry.truncate_def)
  define psi where "psi = tensor_data (data f)"
  have lpsi: "length psi = fst (shape f) * snd (shape f)" using sh by (simp add: psi_def)
  have f': "f' = f\<lparr>shape := shape dest, z := z dest, spacing := spacing dest, offset := offset dest,
                   data := Tensor [fst (shape dest), snd (shape dest)] (P psi)\<rparr>"
    using run P sh cls lpsi
    by (simp add: propagate_def bind_err_def Let_def tensor_rows_def psi_def)
  have tr: "planar_geometry.truncate (CoherenceField_of f) = planar_geometry.truncate f"
    by (simp add: CoherenceField_of_def planar_geometry.truncate_def)
  have ca: "coherence_apply P (fst (shape f) * snd (shape f)) (fst (shape dest) * snd (shape dest))
              (outer_list mul_cnj psi psi) = outer_list mul_cnj (P psi) (P psi)"
    using coherence_apply_outer[of P "fst (shape f) * snd (shape f)" psi
            "fst (shape dest) * snd (shape dest)"] hom lpsi len[OF lpsi]
    by simp
  have "propagate propagator (CoherenceField_of f) dest = Inr (CoherenceField_of f')"
    using P ca
    by (simp add: propagate_def bind_err_def Let_def tr f')
       (simp add: CoherenceField_of_def outer2d_def psi_def)
  moreover have "field_wf f'" "field_class f' = Field" "tensor_dim (data f') = 2"
    using cls len[OF lpsi]
    by (simp_all add: f' field_wf_def Let_def tensor_wf_def tensor_dim_def)
  ultimately show ?thesis by simp
qed

lemma map_outer_list:
  "map h (outer_list f xs ys) = outer_list (\<lambda>a b. h (f a b)) xs ys"
  by (simp add: outer_list_def map_concat comp_def)

lemma power_CoherenceField_of:
  assumes "field_wf f" "field_class f = Field" "tensor_dim (data f) = 2"
  shows "power (CoherenceField_of f) = power f"
  using intensity_CoherenceField_of[OF assms]
  by (simp add: power_def cell_area_def CoherenceField_of_def)

lemma scaled_Field_wf:
  assumes "field_wf f" "field_class f = Field" "tensor_dim (data f) = 2"
  shows "field_wf (f\<lparr>data := mul_scalar (data f) c\<rparr>)"
    "field_class (f\<lparr>data := mul_scalar (data f) c\<rparr>) = Field"
    "tensor_dim (data (f\<lparr>data := mul_scalar (data f) c\<rparr>)) = 2"
  using assms
  by (simp_all add: field_wf_def Let_def tensor_wf_def tensor_dim_def mul_scalar_def tensor_map_def)

lemma normalize_CoherenceField_of:
  assumes wf: "field_wf f" and cls: "field_class f = Field" and d2: "tensor_dim (data f) = 2"
    and P: "0 < P" and pw: "0 < power f"
    and run: "normalize f P = Inr f'"
  shows "normalize (CoherenceField_of f) P = Inr (CoherenceField_of f')
         \<and> field_wf f' \<and> field_class f' = Field \<and> tensor_dim (data f') = 2"
proof -
  define c where "c = sqrt (P / power f)"
  have c2: "c * c = P / power f"
    using P pw by (simp add: c_def)
  have f': "f' = f\<lparr>data := mul_scalar (data f) (complex_of_real c)\<rparr>"
    using run pw cls by (simp add: normalize_def c_def)
  have fn: "(\<lambda>a b. mul_cnj (a * complex_of_real c) (b * complex_of_real c))
      = (\<lambda>a b. mul_cnj a b * complex_of_real (P / power f))"
    by (intro ext) (simp add: mul_cnj_def flip: c2)
  have "outer_list mul_cnj (map (\<lambda>v. v * complex_of_real c) (tensor_data (data f)))
          (map (\<lambda>v. v * complex_of_real c) (tensor_data (data f)))
      = map (\<lambda>v. v * complex_of_real (P / power f))
          (outer_list mul_cnj (tensor_data (data f)) (tensor_data (data f)))"
    by (simp only: outer_list_map map_outer_list fn)
  then have "normalize (CoherenceField_of f) P = Inr (CoherenceField_of f')"
    using pw power_CoherenceField_of[OF wf cls d2]
    by (simp add: normalize_def)
       (simp add: CoherenceField_of_def f' outer2d_def mul_scalar_def tensor_map_def)
  then show ?thesis
    using scaled_Field_wf[OF wf cls d2, of "complex_of_real c"] by (simp add: f')
qed

lemma normalize_power_value:
  assumes wf: "field_wf f" and pw: "0 < power f" and P: "0 < P"
    and run: "normalize f P = Inr g"
  shows "power g = P"
proof -
  let ?c = "case field_class f of CoherenceField \<Rightarrow> P / power f | _ \<Rightarrow> sqrt (P / power f)"
  have g: "g = f\<lparr>data := mul_scalar (data f) (complex_of_real ?c)\<rparr>"
    using run pw by (simp add: normalize_def)
  have "(case field_class f of CoherenceField \<Rightarrow> ?c | _ \<Rightarrow> ?c\<^sup>2) = P / power f"
    using pw P by (cases "field_class f") simp_all
  then have "power g = P / power f * power f"
    using power_scale[OF wf, of ?c] by (simp add: g)
  then show ?thesis using pw by simp
qed

lemma modulate_Field_wf:
  assumes wf: "field_wf f" and cls: "field_class f = Field" and d2: "tensor_dim (data f) = 2"
    and run: "modulate f m = Inr f'"
  shows "field_wf f' \<and> field_class f' = Field \<and> tensor_dim (data f') = 2"
proof -
  have m: "tensor_shape m = [fst (shape f), snd (shape f)]" "tensor_wf m"
    using run by (auto simp: modulate_def Let_def split: if_splits)
  have f': "f' = f\<lparr>data := Tensor [fst (shape f), snd (shape f)]
                  (map2 (*) (tensor_data (data f)) (tensor_data m))\<rparr>"
    using modulate_Field_2d[OF wf cls d2 m] run by simp
  show ?thesis
    using field_2d_wf[OF wf d2] m cls
    by (simp add: f' field_wf_def Let_def tensor_wf_def tensor_dim_def)
qed

lemma sum_propagator_linear: "propagator_linear sum_propagator"
  by (auto simp: propagator_linear_def sum_propagator_def sum_list_const_mult split: if_splits)

lemma padded_row:
  assumes "length row = n1"
  shows "replicate a 0 @ row @ replicate b (0::complex)
           = map (\<lambda>j. if a \<le> j \<and> j < a + n1 then row ! (j - a) else 0) [0..<a + n1 + b]"
proof (rule nth_equalityI)
  show "length (replicate a 0 @ row @ replicate b (0::complex))
      = length (map (\<lambda>j. if a \<le> j \<and> j < a + n1 then row ! (j - a) else 0) [0..<a + n1 + b])"
    using assms by simp
next
  fix j assume "j < length (replicate a 0 @ row @ replicate b (0::complex))"
  then have j: "j < a + n1 + b" using assms by simp
  show "(replicate a 0 @ row @ replicate b (0::complex)) ! j
      = map (\<lambda>j. if a \<le> j \<and> j < a + n1 then row ! (j - a) else 0) [0..<a + n1 + b] ! j"
    using j assms by (auto simp: nth_append)
qed

lemma asm_pad_zero_embed:
  assumes len: "length v = fst shp * snd shp"
  shows "asm_pad pad shp v = zero_embed pad shp v"
proof -
  define n0 n1 p0 p1 where "n0 = fst shp" and "n1 = snd shp" and "p0 = fst pad" and "p1 = snd pad"
  define w where "w = (1 + 2 * p1) * n1"
  define cell where "cell = (\<lambda>i j. if p0 * n0 \<le> i \<and> i < (p0 + 1) * n0 \<and> p1 * n1 \<le> j \<and> j < (p1 + 1) * n1
          then v ! ((i - p0 * n0) * n1 + (j - p1 * n1)) else 0)"
  have w: "w = p1 * n1 + n1 + p1 * n1" by (simp add: w_def algebra_simps)
  have h: "(1 + 2 * p0) * n0 = p0 * n0 + n0 + p0 * n0" by (simp add: algebra_simps)
  have row: "replicate (p1 * n1) 0 @ take n1 (drop (r * n1) v) @ replicate (p1 * n1) 0
      = map (cell (p0 * n0 + r)) [0..<w]" if r: "r < n0" for r
  proof -
    have fit: "r * n1 + n1 \<le> length v"
      using grid_index_less[of r n0 0 "n1"] r len
      by (cases "n1 = 0") (simp_all add: n0_def n1_def, metis Suc_leI mult_Suc mult_le_mono1 add.commute)
    then have l: "length (take n1 (drop (r * n1) v)) = n1" by simp
    have "take n1 (drop (r * n1) v) ! (j - p1 * n1) = v ! (r * n1 + (j - p1 * n1))"
      if "p1 * n1 \<le> j" "j < p1 * n1 + n1" for j
      using that fit by simp
    then show ?thesis
      unfolding padded_row[OF l] w
      using r by (intro map_cong refl) (auto simp: cell_def algebra_simps)
  qed
  have zrow: "replicate w 0 = map (cell i) [0..<w]" if "i < p0 * n0 \<or> p0 * n0 + n0 \<le> i" for i
    using that by (intro nth_equalityI) (auto simp: cell_def)
  have rows: "replicate (p0 * n0) (replicate w 0)
        @ map (\<lambda>row. replicate (p1 * n1) 0 @ row @ replicate (p1 * n1) 0) (tensor_rows n0 n1 v)
        @ replicate (p0 * n0) (replicate w 0)
      = map (\<lambda>i. map (cell i) [0..<w]) [0..<(1 + 2 * p0) * n0]"
  proof (rule nth_equalityI)
    show "length (replicate (p0 * n0) (replicate w 0)
        @ map (\<lambda>row. replicate (p1 * n1) 0 @ row @ replicate (p1 * n1) 0) (tensor_rows n0 n1 v)
        @ replicate (p0 * n0) (replicate w 0))
      = length (map (\<lambda>i. map (cell i) [0..<w]) [0..<(1 + 2 * p0) * n0])"
      by (simp add: tensor_rows_def algebra_simps)
  next
    fix i assume "i < length (replicate (p0 * n0) (replicate w 0)
        @ map (\<lambda>row. replicate (p1 * n1) 0 @ row @ replicate (p1 * n1) 0) (tensor_rows n0 n1 v)
        @ replicate (p0 * n0) (replicate w 0))"
    then have i: "i < p0 * n0 + n0 + p0 * n0" by (simp add: tensor_rows_def)
    consider "i < p0 * n0" | "p0 * n0 \<le> i" "i < p0 * n0 + n0" | "p0 * n0 + n0 \<le> i"
      by linarith
    then show "(replicate (p0 * n0) (replicate w 0)
        @ map (\<lambda>row. replicate (p1 * n1) 0 @ row @ replicate (p1 * n1) 0) (tensor_rows n0 n1 v)
        @ replicate (p0 * n0) (replicate w 0)) ! i
      = map (\<lambda>i. map (cell i) [0..<w]) [0..<(1 + 2 * p0) * n0] ! i"
    proof cases
      case 1
      then show ?thesis using i zrow[of i] by (simp add: nth_append h)
    next
      case 2
      then have r: "i - p0 * n0 < n0" by simp
      from row[OF r] r 2 i show ?thesis
        by (simp add: nth_append h tensor_rows_def)
    next
      case 3
      then have "\<not> i - p0 * n0 < n0" "\<not> i < p0 * n0" by simp_all
      with 3 show ?thesis using i zrow[of i] by (simp add: nth_append h tensor_rows_def)
    qed
  qed
  have lhs: "asm_pad pad shp v = concat (replicate (p0 * n0) (replicate w 0)
        @ map (\<lambda>row. replicate (p1 * n1) 0 @ row @ replicate (p1 * n1) 0) (tensor_rows n0 n1 v)
        @ replicate (p0 * n0) (replicate w 0))"
    unfolding asm_pad_def Let_def n0_def n1_def p0_def p1_def w_def by (simp only:)
  have rhs: "zero_embed pad shp v = concat (map (\<lambda>i. map (cell i) [0..<w]) [0..<(1 + 2 * p0) * n0])"
    unfolding zero_embed_def Let_def padded_shape_def cell_def n0_def n1_def p0_def p1_def w_def
    by (simp only: fst_conv snd_conv)
  show ?thesis
    unfolding lhs rhs rows ..
qed

lemma concat_tensor_rows: "concat (tensor_rows n k v) = take (n * k) v"
proof (induction n)
  case 0
  show ?case by (simp add: tensor_rows_def)
next
  case (Suc n)
  have "concat (tensor_rows (Suc n) k v) = concat (tensor_rows n k v) @ take k (drop (n * k) v)"
    by (simp add: tensor_rows_def)
  also have "\<dots> = take (n * k + k) v"
    by (simp add: Suc take_add)
  finally show ?case by (simp add: add.commute)
qed

lemma asm_pad_none:
  assumes "length v = fst shp * snd shp"
  shows "asm_pad (0, 0) shp v = v"
  using assms by (simp add: asm_pad_def Let_def comp_def concat_tensor_rows)

lemma length_concat_rows:
  assumes "\<And>x. length (F x) = w"
  shows "length (concat (map F xs)) = length xs * w"
  by (induction xs) (simp_all add: assms)

lemma length_zero_embed:
  "length (zero_embed pad shp v) = fst (padded_shape pad shp) * snd (padded_shape pad shp)"
  unfolding zero_embed_def Let_def
  by (subst length_concat_rows[where w = "snd (padded_shape pad shp)"]) simp_all

lemma fl_not_NaN [simp]: "fl x \<noteq> NaN"
  by (simp add: fl_def)

lemma meshgrid_shape:
  "tensor_shape (fst (meshgrid g)) = [fst (shape g), snd (shape g)]"
  "tensor_shape (snd (meshgrid g)) = [fst (shape g), snd (shape g)]"
  "length (tensor_data (fst (meshgrid g))) = fst (shape g) * snd (shape g)"
  "length (tensor_data (snd (meshgrid g))) = fst (shape g) * snd (shape g)"
  by (simp_all add: meshgrid_def Let_def)

lemma airy_value:
  assumes geo: "PlanarGeometry_init shp 0 sp off = Inr g"
  shows "airy shp scale sp off =
           Inr (tensor_map2
             (\<lambda>u v. if dsqrt (dadd (dmul u u) (dmul v v)) = Fin 0 then Fin 1
                    else airy_formula (ddiv (dsqrt (dadd (dmul u u) (dmul v v))) (Fin scale)))
             (fst (meshgrid g)) (snd (meshgrid g)))"
proof -
  obtain x y where xy: "meshgrid g = (x, y)" by (cases "meshgrid g")
  have len: "length (tensor_data x) = length (tensor_data y)"
    using meshgrid_shape(3,4)[of g] xy by simp
  show ?thesis
    using len
    by (simp add: airy_def geo bind_err_def xy tensor_map2_def tensor_map_def
          zip_map1 zip_map2 zip_same_conv_map case_prod_unfold map_zip_map map_zip_map2)
qed

lemma airy_formula_not_NaN:
  assumes "s = Fin a" "a \<noteq> 0"
  shows "airy_formula s \<noteq> NaN"
proof -
  have b: "bessel_j1 s \<noteq> NaN" using assms by simp
  have m: "dmul (Fin 2) (bessel_j1 s) \<noteq> NaN"
    using b by (cases "bessel_j1 s") simp_all
  have q: "ddiv (dmul (Fin 2) (bessel_j1 s)) s \<noteq> NaN"
    using m assms by (cases "dmul (Fin 2) (bessel_j1 s)") simp_all
  have "dmul d d \<noteq> NaN" if "d \<noteq> NaN" for d
    using that by (cases d) simp_all
  from this[OF q] show ?thesis by (simp add: airy_formula_def Let_def)
qed

lemma fl_zero [simp]: "fl 0 = Fin 0"
  by (simp add: fl_def underflow_threshold_def overflow_threshold_def)

lemma fl_in_range:
  assumes "underflow_threshold < \<bar>x\<bar>" "\<bar>x\<bar> < overflow_threshold"
  shows "fl x = Fin x"
  using assms by (auto simp: fl_def)

lemma fl_underflow:
  assumes "\<bar>x\<bar> \<le> underflow_threshold"
  shows "fl x = Fin 0"
proof -
  have "underflow_threshold < overflow_threshold"
    by (simp add: underflow_threshold_def overflow_threshold_def)
  with assms show ?thesis by (auto simp: fl_def)
qed

lemma bessel_j1_series_zero [simp]: "bessel_j1_series 0 = 0"
  by (simp add: bessel_j1_series_def)

lemma airy_formula_zero: "airy_formula (Fin 0) = NaN"
  by (simp add: airy_formula_def)

lemma threshold_bounds:
  "0 < underflow_threshold" "underflow_threshold < 1 / 16" "16 < overflow_threshold"
  "underflow_threshold < min_normal" "min_normal < 1 / 16"
  by (simp_all add: underflow_threshold_def overflow_threshold_def min_normal_def)

lemma fl_one [simp]: "fl 1 = Fin 1" "fl (- 1) = Fin (- 1)"
  using threshold_bounds by (simp_all add: fl_in_range)

lemma dadd_small:
  assumes "\<bar>a + b\<bar> \<le> 16"
  shows "dadd (Fin a) (Fin b) = Fin (a + b)"
  using assms threshold_bounds(3) by auto

lemma fl_nonneg:
  assumes "0 \<le> x" "x < overflow_threshold"
  shows "\<exists>p. fl x = Fin p \<and> 0 \<le> p \<and> p \<le> x"
  using assms threshold_bounds(3) by (auto simp: fl_def)

lemma fl_nonneg_cases:
  assumes "0 \<le> x"
  shows "fl x = PInf \<or> (\<exists>c. fl x = Fin c \<and> 0 \<le> c)"
  using assms threshold_bounds(3) by (auto simp: fl_def)

lemma fl_nonpos_cases:
  assumes "x \<le> 0"
  shows "fl x = NInf \<or> (\<exists>c. fl x = Fin c \<and> c \<le> 0)"
  using assms threshold_bounds(3) by (auto simp: fl_def)

lemma square_cases:
  assumes "is_finite u"
  shows "dmul u u = PInf \<or> (\<exists>c. dmul u u = Fin c \<and> 0 \<le> c)"
proof -
  from assms obtain a where u: "u = Fin a" by (cases u) auto
  show ?thesis using fl_nonneg_cases[of "a * a"] by (simp add: u)
qed

lemma dadd_nonneg_cases:
  assumes "d1 = PInf \<or> (\<exists>c. d1 = Fin c \<and> 0 \<le> c)" "d2 = PInf \<or> (\<exists>c. d2 = Fin c \<and> 0 \<le> c)"
  shows "dadd d1 d2 = PInf \<or> (\<exists>c. dadd d1 d2 = Fin c \<and> 0 \<le> c)"
proof -
  have pos: "0 < overflow_threshold" using threshold_bounds(3) by simp
  from assms consider "d1 = PInf" | "d2 = PInf"
    | a b where "d1 = Fin a" "0 \<le> a" "d2 = Fin b" "0 \<le> b" by blast
  then show ?thesis
  proof cases
    case 1
    with assms(2) show ?thesis by auto
  next
    case 2
    with assms(1) show ?thesis by auto
  next
    case 3
    have "\<not> a + b \<le> - overflow_threshold" using 3(2,4) pos by simp
    then show ?thesis using 3 by simp
  qed
qed

lemma double_nonneg_cases:
  assumes "d = PInf \<or> (\<exists>c. d = Fin c \<and> 0 \<le> c)"
  shows "dmul (Fin 2) d = PInf \<or> (\<exists>c. dmul (Fin 2) d = Fin c \<and> 0 \<le> c)"
proof -
  from assms consider "d = PInf" | c where "d = Fin c" "0 \<le> c" by blast
  then show ?thesis
  proof cases
    case 1
    then show ?thesis by simp
  next
    case 2
    then show ?thesis using fl_nonneg_cases[of "2 * c"] by simp
  qed
qed

lemma dexp_unit:
  assumes d: "d = PInf \<or> (\<exists>c. d = Fin c \<and> 0 \<le> c)" and w: "0 < w"
  shows "\<exists>q. dexp (ddiv (dneg d) (Fin w)) = Fin q \<and> 0 \<le> q \<and> q \<le> 1"
proof -
  have e: "\<exists>q. fl (exp x) = Fin q \<and> 0 \<le> q \<and> q \<le> 1" if "x \<le> 0" for x
  proof -
    have "exp x \<le> 1" using that by simp
    moreover have "0 \<le> exp x" by simp
    ultimately have "exp x < overflow_threshold"
      using threshold_bounds(3) by linarith
    from fl_nonneg[OF \<open>0 \<le> exp x\<close> this] obtain p where
      p: "fl (exp x) = Fin p" "0 \<le> p" "p \<le> exp x" by blast
    from p(3) \<open>exp x \<le> 1\<close> have "p \<le> 1" by (rule order_trans)
    with p(1,2) show ?thesis by blast
  qed
  from d consider "d = PInf" | c where "d = Fin c" "0 \<le> c" by blast
  then show ?thesis
  proof cases
    case 1
    then show ?thesis using w by simp
  next
    case 2
    have "- c / w \<le> 0" using 2(2) w by (simp add: divide_nonpos_pos)
    from fl_nonpos_cases[OF this] consider "fl (- c / w) = NInf"
      | c' where "fl (- c / w) = Fin c'" "c' \<le> 0" by blast
    then show ?thesis
    proof cases
      case 1
      then show ?thesis using w 2 by simp
    next
      case 2: 2
      from e[OF 2(2)] show ?thesis using w \<open>d = Fin c\<close> 2(1) by simp
    qed
  qed
qed

lemma gaussian_exponent:
  assumes "is_finite u" "is_finite v" "0 < w"
  shows "\<exists>q. dexp (ddiv (dneg (dmul (Fin 2) (dadd (dmul u u) (dmul v v)))) (Fin w)) = Fin q
           \<and> 0 \<le> q \<and> q \<le> 1"
  by (rule dexp_unit[OF double_nonneg_cases[OF dadd_nonneg_cases[OF
        square_cases[OF assms(1)] square_cases[OF assms(2)]]] assms(3)])

lemma gaussian_prefactor:
  assumes lo: "underflow_threshold < w" and hi: "2 / (pi * w) < overflow_threshold"
  shows "\<exists>p. ddiv (Fin 2) (dmul (Fin pi) (Fin w)) = Fin p \<and> 0 \<le> p \<and> p \<le> 2 / (pi * w)"
proof -
  have w: "0 < w" using lo threshold_bounds(1) by simp
  have pw: "0 < pi * w" using w by simp
  have nn: "0 \<le> 2 / (pi * w)" using pw by simp
  from fl_nonneg_cases[of "pi * w"] pw consider "fl (pi * w) = PInf"
    | c where "fl (pi * w) = Fin c" "0 \<le> c" by fastforce
  then show ?thesis
  proof cases
    case 1
    then show ?thesis using nn by simp
  next
    case 2
    have "1 < pi" using pi_ge_two by linarith
    from mult_strict_right_mono[OF this w] have "w < pi * w" by simp
    with lo have "underflow_threshold < \<bar>pi * w\<bar>" using pw by simp
    with 2 have c: "c = pi * w" by (auto simp: fl_def split: if_splits)
    from fl_nonneg[OF nn hi] show ?thesis using 2(1) pw w by (simp add: c)
  qed
qed

lemma gaussian_intensity_finite:
  assumes lo: "underflow_threshold < w0 * w0" and hi: "w0 * w0 < overflow_threshold"
    and pref: "2 / (pi * (w0 * w0)) < overflow_threshold"
    and uv: "is_finite u" "is_finite v"
  shows "\<exists>a. gaussian_intensity w0 u v = Fin a \<and> 0 \<le> a \<and> a \<le> 2 / (pi * (w0 * w0))"
proof -
  have w: "0 < w0 * w0" using lo threshold_bounds(1) by simp
  have flw: "fl (w0 * w0) = Fin (w0 * w0)"
    using lo hi w by (simp add: fl_in_range)
  from gaussian_prefactor[OF lo pref] obtain p where
    p: "ddiv (Fin 2) (dmul (Fin pi) (Fin (w0 * w0))) = Fin p" "0 \<le> p" "p \<le> 2 / (pi * (w0 * w0))"
    by blast
  from gaussian_exponent[OF uv w] obtain q where
    q: "dexp (ddiv (dneg (dmul (Fin 2) (dadd (dmul u u) (dmul v v)))) (Fin (w0 * w0))) = Fin q"
       "0 \<le> q" "q \<le> 1"
    by blast
  have pq: "0 \<le> p * q" "p * q \<le> p"
    using p(2) q(2,3) by (simp_all add: mult_left_le)
  with p(3) pref have "p * q < overflow_threshold" by simp
  from fl_nonneg[OF pq(1) this] obtain a where
    a: "fl (p * q) = Fin a" "0 \<le> a" "a \<le> p * q" by blast
  have "gaussian_intensity w0 u v = Fin a"
    unfolding gaussian_intensity_def flw p(1) q(1) using a(1) by simp
  with a pq p(3) show ?thesis by auto
qed

lemma gsm_intensity_value:
  assumes lo: "underflow_threshold < w0 * w0" and hi: "w0 * w0 < overflow_threshold"
  shows "gsm_intensity_func w0 x y = Inr (tensor_map2 (gaussian_intensity w0) x y)"
proof -
  have w: "0 < w0 * w0" using lo threshold_bounds(1) by simp
  have flw: "fl (w0 * w0) = Fin (w0 * w0)"
    using lo hi w by (simp add: fl_in_range)
  have sq: "py_square w0 = Inr (Fin (w0 * w0))"
    using hi by (simp add: py_square_def flw)
  have "1 < pi" using pi_ge_two by linarith
  from mult_strict_right_mono[OF this w] have "w0 * w0 < pi * (w0 * w0)" by simp
  with lo have "\<not> \<bar>pi * (w0 * w0)\<bar> \<le> underflow_threshold" using w by simp
  then have nz: "dmul (Fin pi) (Fin (w0 * w0)) \<noteq> Fin 0"
    using w by (auto simp: fl_def)
  show ?thesis
    unfolding gsm_intensity_func_def sq bind_err_def gaussian_intensity_def flw
    using nz by simp
qed

lemma gsm_coherence_zero:
  "gsm_coherence_func 0 x y =
     Inr (tensor_map2 (\<lambda>u v. if u = Fin 0 \<and> v = Fin 0 then Fin 1 else Fin 0) x y)"
  by (simp add: gsm_coherence_func_def)

lemma gsm_coherence_pos:
  assumes "cw \<noteq> 0" "cw * cw < overflow_threshold"
  shows "gsm_coherence_func cw x y =
     Inr (tensor_map2
       (\<lambda>u v. dexp (ddiv (dneg (dadd (dmul u u) (dmul v v))) (dmul (Fin 2) (fl (cw * cw))))) x y)"
  using assms by (simp add: gsm_coherence_func_def py_square_def bind_err_def)

lemma gsm_data:
  assumes geo: "PlanarGeometry_init shp 0 sp off = Inr g"
    and int: "\<And>x y. gsm_intensity_func w0 x y = Inr (tensor_map2 (gaussian_intensity w0) x y)"
    and coh: "\<And>xd yd. gsm_coherence_func cw xd yd = Inr (tensor_map2 C xd yd)"
    and xy: "meshgrid g = (x, y)"
    and p: "p < fst shp * snd shp" and q: "q < fst shp * snd shp"
  shows "\<exists>t. gaussian_schell_model shp w0 cw sp off = Inr t
           \<and> tensor_shape t = [fst shp, snd shp, fst shp, snd shp]
           \<and> tensor_data t ! (p * (fst shp * snd shp) + q) =
               dmul (dsqrt (dmul (gaussian_intensity w0 (tensor_data x ! p) (tensor_data y ! p))
                                 (gaussian_intensity w0 (tensor_data x ! q) (tensor_data y ! q))))
                    (C (dsub (tensor_data x ! p) (tensor_data x ! q))
                       (dsub (tensor_data y ! p) (tensor_data y ! q)))"
proof -
  define n where "n = fst shp * snd shp"
  have sh: "shape g = shp" using init_geometry(1)[OF geo] .
  have shx: "tensor_shape x = [fst shp, snd shp]" "tensor_shape y = [fst shp, snd shp]"
    and lx: "length (tensor_data x) = n" and ly: "length (tensor_data y) = n"
    using meshgrid_shape[of g] xy sh by (simp_all add: n_def)
  define Id where "Id = map2 (gaussian_intensity w0) (tensor_data x) (tensor_data y)"
  define Cd where "Cd = map2 C
     (outer_list dsub (tensor_data x) (tensor_data x)) (outer_list dsub (tensor_data y) (tensor_data y))"
  define t where "t = Tensor [fst shp, snd shp, fst shp, snd shp]
     (map2 dmul (map dsqrt (outer_list dmul Id Id)) Cd)"
  have lI: "length Id = n" by (simp add: Id_def lx ly)
  have run: "gaussian_schell_model shp w0 cw sp off = Inr t"
    by (simp add: gaussian_schell_model_def schell_model_def geo bind_err_def xy
          int coh outer2d_def pairwise_diff_def
          tensor_map2_def tensor_map_def shx t_def Id_def Cd_def)
  have P: "p * n + q < n * n"
    using grid_index_less[of p n q n] p q by (simp add: n_def)
  have pn: "p < n" "q < n" using p q by (simp_all add: n_def)
  have I_p: "Id ! p = gaussian_intensity w0 (tensor_data x ! p) (tensor_data y ! p)"
    and I_q: "Id ! q = gaussian_intensity w0 (tensor_data x ! q) (tensor_data y ! q)"
    using pn by (simp_all add: Id_def lx ly)
  have out: "outer_list dmul Id Id ! (p * n + q) = dmul (Id ! p) (Id ! q)"
    using outer_list_nth[of p Id q Id dmul] pn lI by simp
  have dx: "outer_list dsub (tensor_data x) (tensor_data x) ! (p * n + q)
      = dsub (tensor_data x ! p) (tensor_data x ! q)"
    using outer_list_nth[of p "tensor_data x" q "tensor_data x" dsub] pn lx by simp
  have dy: "outer_list dsub (tensor_data y) (tensor_data y) ! (p * n + q)
      = dsub (tensor_data y ! p) (tensor_data y ! q)"
    using outer_list_nth[of p "tensor_data y" q "tensor_data y" dsub] pn ly by simp
  have "tensor_data t ! (p * n + q) =
      dmul (dsqrt (dmul (Id ! p) (Id ! q)))
        (C (dsub (tensor_data x ! p) (tensor_data x ! q))
           (dsub (tensor_data y ! p) (tensor_data y ! q)))"
    using P by (simp add: t_def Cd_def lI lx ly out dx dy)
  then show ?thesis
    using run by (simp add: t_def n_def I_p I_q)
qed

lemma gsm_entry:
  assumes geo: "PlanarGeometry_init shp 0 sp off = Inr g"
    and int: "\<And>x y. gsm_intensity_func w0 x y = Inr (tensor_map2 (gaussian_intensity w0) x y)"
    and coh: "\<And>xd yd. gsm_coherence_func cw xd yd = Inr (tensor_map2 C xd yd)"
  shows "\<exists>t. gaussian_schell_model shp w0 cw sp off = Inr t
         \<and> tensor_shape t = [fst shp, snd shp, fst shp, snd shp]
         \<and> (\<forall>i<fst shp. \<forall>j<snd shp. \<forall>k<fst shp. \<forall>l<snd shp.
              tensor_at t [i, j, k, l] =
                dmul (dsqrt (dmul (gaussian_intensity w0 (grid_x g i j) (grid_y g i j))
                                  (gaussian_intensity w0 (grid_x g k l) (grid_y g k l))))
                     (C (dsub (grid_x g i j) (grid_x g k l)) (dsub (grid_y g i j) (grid_y g k l))))"
proof -
  obtain x y where xy: "meshgrid g = (x, y)" by (cases "meshgrid g")
  have sh: "shape g = shp" using init_geometry(1)[OF geo] .
  have shx: "tensor_shape x = [fst shp, snd shp]" "tensor_shape y = [fst shp, snd shp]"
    using meshgrid_shape[of g] xy sh by simp_all
  have pos: "0 < fst shp * snd shp"
    using geo by (auto simp: PlanarGeometry_init_def split: if_splits)
  from gsm_data[OF geo int coh xy pos pos] obtain t where
    t: "gaussian_schell_model shp w0 cw sp off = Inr t"
       "tensor_shape t = [fst shp, snd shp, fst shp, snd shp]"
    by blast
  have "tensor_at t [i, j, k, l] =
                dmul (dsqrt (dmul (gaussian_intensity w0 (grid_x g i j) (grid_y g i j))
                                  (gaussian_intensity w0 (grid_x g k l) (grid_y g k l))))
                     (C (dsub (grid_x g i j) (grid_x g k l)) (dsub (grid_y g i j) (grid_y g k l)))"
    if ij: "i < fst shp" "j < snd shp" and kl: "k < fst shp" "l < snd shp" for i j k l
  proof -
    have idx: "ravel [fst shp, snd shp, fst shp, snd shp] [i, j, k, l]
        = (i * snd shp + j) * (fst shp * snd shp) + (k * snd shp + l)"
      by (simp add: ravel_def algebra_simps)
    have idx2: "ravel [fst shp, snd shp] [a, b] = a * snd shp + b" for a b
      by (simp add: ravel_def)
    from gsm_data[OF geo int coh xy grid_index_less[OF ij] grid_index_less[OF kl]] t(1)
    show ?thesis
      by (simp add: tensor_at_def idx idx2 grid_x_def grid_y_def xy shx t(2))
  qed
  with t show ?thesis by blast
qed

lemma dsub_zero_iff:
  assumes "is_finite a" "is_finite b"
  shows "dsub a b = Fin 0 \<longleftrightarrow> a = b"
proof -
  have pos: "0 < overflow_threshold" using threshold_bounds(3) by simp
  from assms obtain u v where "a = Fin u" "b = Fin v" by (cases a; cases b) auto
  then show ?thesis using pos by (auto simp: dsub_def)
qed

lemma square_bound:
  assumes "P * P < overflow_threshold"
  shows "P < overflow_threshold"
proof (rule ccontr)
  assume "\<not> P < overflow_threshold"
  then have T: "overflow_threshold \<le> P" by simp
  with threshold_bounds(3) have "1 \<le> P" by linarith
  then have "P * 1 \<le> P * P" by (intro mult_left_mono) simp_all
  with T assms show False by simp
qed

lemma sqrt_square_double:
  assumes a: "0 \<le> a" "a \<le> P" and P: "P * P < overflow_threshold"
    and sq: "a = 0 \<or> min_normal \<le> a * a"
  shows "dmul (dsqrt (dmul (Fin a) (Fin a))) (Fin 1) = Fin a"
proof (cases "a = 0")
  case True
  then show ?thesis by simp
next
  case False
  with sq have mn: "min_normal \<le> a * a" by simp
  have "a * a \<le> P * P" using a by (intro mult_mono) simp_all
  with P have hi: "a * a < overflow_threshold" by simp
  have lo: "underflow_threshold < a * a" using mn threshold_bounds(4) by simp
  have 1: "fl (a * a) = Fin (a * a)"
    using lo hi by (simp add: fl_in_range)
  have "underflow_threshold < a"
  proof (rule ccontr)
    assume "\<not> underflow_threshold < a"
    then have le: "a \<le> underflow_threshold" by simp
    with threshold_bounds(2) have "a \<le> 1" by simp
    then have "a * a \<le> a * 1" using a(1) by (intro mult_left_mono) simp_all
    with le lo show False by simp
  qed
  moreover have "a < overflow_threshold"
    using a(2) square_bound[OF P] by simp
  ultimately have 2: "fl a = Fin a"
    using a(1) by (simp add: fl_in_range)
  show ?thesis using a(1) by (simp add: 1 2)
qed

lemma gaussian_coherence_origin:
  assumes "underflow_threshold < c2"
  shows "dexp (ddiv (dneg (dadd (dmul (Fin 0) (Fin 0)) (dmul (Fin 0) (Fin 0)))) (dmul (Fin 2) (Fin c2)))
           = Fin 1"
proof -
  have pos: "0 < overflow_threshold" using threshold_bounds(3) by simp
  have c: "0 < 2 * c2" using assms threshold_bounds(1) by simp
  have n: "dneg (dadd (dmul (Fin 0) (Fin 0)) (dmul (Fin 0) (Fin 0))) = Fin 0"
    using pos by simp
  have u: "underflow_threshold < \<bar>2 * c2\<bar>" using assms c by simp
  have "ddiv (Fin 0) (dmul (Fin 2) (Fin c2)) = Fin 0"
  proof (cases "overflow_threshold \<le> 2 * c2")
    case True
    then have "fl (2 * c2) = PInf" by (simp add: fl_def)
    then show ?thesis by simp
  next
    case False
    with c have "\<bar>2 * c2\<bar> < overflow_threshold" by simp
    from fl_in_range[OF u this] show ?thesis using c by simp
  qed
  then show ?thesis unfolding n by simp
qed

lemma fl_moderate:
  assumes "1 / 16 \<le> \<bar>x\<bar>" "\<bar>x\<bar> \<le> 16"
  shows "fl x = Fin x"
  using assms threshold_bounds(2,3) by (intro fl_in_range) simp_all

lemma dmul_zero_not_NaN:
  assumes "dmul d (Fin 0) \<noteq> NaN"
  shows "dmul d (Fin 0) = Fin 0"
  using assms by (cases d) simp_all

lemma exp_minus_half: "1 / 2 \<le> exp (- (1 / 2) :: real)" "exp (- (1 / 2) :: real) \<le> 1"
  using exp_ge_add_one_self[of "- (1 / 2) :: real"] by simp_all

lemma two_over_pi: "1 / 2 \<le> 2 / pi" "2 / pi \<le> 1"
  using pi_ge_two pi_less_4 by (simp_all add: field_simps)

lemma gaussian_intensity_sample:
  "gaussian_intensity 1 (Fin 0) (Fin (1 / 2)) = Fin (2 / pi * exp (- (1 / 2)))"
proof -
  have 1: "fl (pi * 1) = Fin pi"
    using pi_ge_two pi_less_4 by (simp add: fl_moderate)
  have 2: "fl (2 / pi) = Fin (2 / pi)"
  proof (rule fl_moderate)
    have "\<bar>2 / pi\<bar> = 2 / pi" using pi_gt_zero by simp
    with two_over_pi show "1 / 16 \<le> \<bar>2 / pi\<bar>" "\<bar>2 / pi\<bar> \<le> 16" by linarith+
  qed
  have 3: "fl (1 / 4) = Fin (1 / 4)" "fl (1 / 2) = Fin (1 / 2)" "fl (- (1 / 2)) = Fin (- (1 / 2))"
    by (simp_all add: fl_moderate)
  have 4: "fl (exp (- (1 / 2))) = Fin (exp (- (1 / 2)))"
  proof (rule fl_moderate)
    have "\<bar>exp (- (1 / 2) :: real)\<bar> = exp (- (1 / 2))" by simp
    with exp_minus_half show "1 / 16 \<le> \<bar>exp (- (1 / 2) :: real)\<bar>" "\<bar>exp (- (1 / 2) :: real)\<bar> \<le> 16"
      by linarith+
  qed
  have lo: "1 / 4 \<le> 2 / pi * exp (- (1 / 2))"
    using mult_mono[OF two_over_pi(1) exp_minus_half(1)] by simp
  have hi: "2 / pi * exp (- (1 / 2)) \<le> 1"
    using mult_mono[OF two_over_pi(2) exp_minus_half(2)] pi_gt_zero by simp
  have 5: "fl (2 / pi * exp (- (1 / 2))) = Fin (2 / pi * exp (- (1 / 2)))"
  proof (rule fl_moderate)
    from lo have "\<bar>2 / pi * exp (- (1 / 2))\<bar> = 2 / pi * exp (- (1 / 2))"
      by (intro abs_of_nonneg) linarith
    with lo hi show "1 / 16 \<le> \<bar>2 / pi * exp (- (1 / 2))\<bar>" "\<bar>2 / pi * exp (- (1 / 2))\<bar> \<le> 16"
      by linarith+
  qed
  have add: "dadd (Fin 0) (Fin (1 / 4)) = Fin (1 / 4)"
    by (subst dadd_small) simp_all
  have "gaussian_intensity 1 (Fin 0) (Fin (1 / 2)) =
      dmul (ddiv (Fin 2) (fl (pi * 1)))
        (dexp (ddiv (dneg (dmul (Fin 2) (dadd (fl 0) (fl (1 / 4))))) (Fin 1)))"
    by (simp add: gaussian_intensity_def del: dadd.simps fl_zero)
  also have "\<dots> = dmul (ddiv (Fin 2) (Fin pi))
        (dexp (ddiv (dneg (dmul (Fin 2) (Fin (1 / 4)))) (Fin 1)))"
    by (simp only: 1 fl_zero 3 add)
  also have "ddiv (Fin 2) (Fin pi) = Fin (2 / pi)"
    using pi_gt_zero 2 by simp
  also have "dmul (Fin 2) (Fin (1 / 4)) = Fin (1 / 2)"
    using 3(2) by simp
  also have "dneg (Fin (1 / 2)) = Fin (- (1 / 2))"
    by simp
  also have "ddiv (Fin (- (1 / 2))) (Fin 1) = Fin (- (1 / 2))"
    using 3(3) by simp
  also have "dexp (Fin (- (1 / 2))) = Fin (exp (- (1 / 2)))"
    by (simp only: dexp.simps 4)
  also have "dmul (Fin (2 / pi)) (Fin (exp (- (1 / 2)))) = Fin (2 / pi * exp (- (1 / 2)))"
    by (simp only: dmul.simps 5)
  finally show ?thesis .
qed

lemma gsm_intensity_underflow:
  "gsm_intensity_func (1 / 10 ^ 200) x y = Inl (ZeroDivisionError ''float division by zero'')"
proof -
  define w :: real where "w = 1 / 10 ^ 200"
  have "\<bar>w * w\<bar> \<le> underflow_threshold"
    by (simp add: w_def underflow_threshold_def)
  then have z: "fl (w * w) = Fin 0" by (rule fl_underflow)
  have "\<not> overflow_threshold \<le> w * w"
    by (simp add: w_def overflow_threshold_def)
  then have "py_square w = Inr (Fin 0)" by (simp add: py_square_def z)
  then have "gsm_intensity_func w x y = Inl (ZeroDivisionError ''float division by zero'')"
    by (simp add: gsm_intensity_func_def bind_err_def)
  then show ?thesis by (simp only: w_def)
qed

section \<open>Claims\<close>

text \<open>
  \<^bold>\<open>C6\<close>. For a detector built by \<open>IntensityDetector.__init__\<close> from a real weight of
  shape \<open>(C, H, W)\<close>, and a Field with two-dimensional data whose geometry passes
  \<open>validate_field_geometry\<close>, \<open>forward\<close> returns a tensor of \<open>C\<close> values, and entry \<open>c\<close>
  is the sum over all grid cells \<open>(i, j)\<close> of \<open>weight[c, i, j] * intensity[i, j]\<close>,
  multiplied by the cell area.
\<close>

theorem IntensityDetector_forward_weighted_sum:
  assumes init: "IntensityDetector_init (TensorObj w) z0 sp off = Inr det"
    and w: "tensor_wf w" "tensor_shape w = [C, H, W]"
    and f: "field_wf f" "field_class f = Field" "tensor_dim (data f) = 2"
    and valid: "validate_field_geometry close gs det (FieldObj f :: 'p pyobj) = Inr ()"
  shows "IntensityDetector_forward close gs det (FieldObj f :: 'p pyobj) =
           Inr (Tensor [C]
             (map (\<lambda>c. (\<Sum>i<H. \<Sum>j<W. tensor_at w [c, i, j] * tensor_at (intensity f) [i, j])
                          * cell_area det) [0..<C]))"
proof -
  from init_detector[OF init] w have det: "weight det = w" "shape det = (H, W)"
    by simp_all
  from validated_shape[OF valid] det have sf: "shape f = (H, W)" by simp
  from field_2d_shape[OF f(1) f(3)] sf
  have df: "tensor_shape (data f) = [H, W]" "length (tensor_data (data f)) = H * W"
    by simp_all
  define I where "I = intensity f"
  have I: "tensor_shape I = [H, W]" "length (tensor_data I) = H * W"
    using f(2) df by (simp_all add: I_def intensity_def tensor_map_def)
  have fl_I: "flatten_m2 I = Inr (Tensor [H * W] (tensor_data I))"
    using I by (simp add: flatten_m2_def)
  have fl_w: "flatten_m2 w = Inr (Tensor [C, H * W] (tensor_data w))"
    using w by (simp add: flatten_m2_def)
  have lw: "length (tensor_data w) = C * (H * W)"
    using w by (simp add: tensor_wf_def)
  have lin: "linear (Tensor [H * W] (tensor_data I)) (Tensor [C, H * W] (tensor_data w)) =
      Inr (Tensor [C] (map (\<lambda>c. \<Sum>k<H * W. tensor_data I ! k * tensor_data w ! (c * (H * W) + k)) [0..<C]))"
    using linear_vector[of "Tensor [H * W] (tensor_data I)" "H * W" "Tensor [C, H * W] (tensor_data w)" C]
      I lw by simp
  have entry: "(\<Sum>k<H * W. tensor_data I ! k * tensor_data w ! (c * (H * W) + k))
      = (\<Sum>i<H. \<Sum>j<W. tensor_at w [c, i, j] * tensor_at I [i, j])" for c
    unfolding sum_grid
    by (intro sum.cong refl)
       (simp add: tensor_at_def ravel_def w I algebra_simps)
  show ?thesis
    using valid
    by (simp add: IntensityDetector_forward_def bind_err_def det fl_I fl_w lin entry
          mul_scalar_def tensor_map_def comp_def flip: I_def)
qed


theorem IntensityDetector_forward_weighted_sum_witness:
  "IntensityDetector_forward (=) show_geometry
     \<lparr>shape = (1, 2), z = 0, spacing = (1, 2), offset = (0, 0), weight = Tensor [2, 1, 2] [1, 0, 0, 1]\<rparr>
     (FieldObj \<lparr>shape = (1, 2), z = 0, spacing = (1, 2), offset = (0, 0),
        field_class = Field, data = Tensor [1, 2] [3, 4], wavelength = 1\<rparr> :: unit pyobj)
   = Inr (Tensor [2] [18, 32])"
proof -
  let ?w = "Tensor [2, 1, 2] [1, 0, 0, 1 :: real]"
  let ?det = "\<lparr>shape = (1, 2), z = 0, spacing = (1, 2), offset = (0, 0), weight = ?w\<rparr>"
  let ?f = "\<lparr>shape = (1, 2), z = 0, spacing = (1, 2), offset = (0, 0),
        field_class = Field, data = Tensor [1, 2] [3, 4], wavelength = 1\<rparr>"
  have init: "IntensityDetector_init (TensorObj ?w) 0 (1, 2) (0, 0) = Inr ?det"
    by (simp add: IntensityDetector_init_def bind_err_def validate_weight_def tensor_dim_def
          PlanarGeometry_init_def planar_geometry.extend_def intensity_detector.fields_def)
  have valid: "validate_field_geometry (=) show_geometry ?det (FieldObj ?f :: unit pyobj) = Inr ()"
    by (simp add: validate_field_geometry_def is_same_geometry_def)
  have "[0..<2] = [0, Suc 0]" by (simp add: upt_rec)
  then show ?thesis
    using IntensityDetector_forward_weighted_sum[OF init _ _ _ _ _ valid, of 2 1 2]
    by (simp add: tensor_wf_def field_wf_def Let_def tensor_dim_def tensor_at_def ravel_def
          intensity_def tensor_map_def abs_square_def cell_area_def lessThan_Suc numeral_2_eq_2)
qed

text \<open>
  \<^bold>\<open>C1\<close> (as the code has it). For a detector built from a complex weight of shape
  \<open>(C, H, W)\<close> and a Field with two-dimensional data \<open>psi\<close> whose geometry passes
  \<open>validate_field_geometry\<close>, \<open>FieldDetector.forward\<close> returns, for each channel \<open>c\<close>,
  \<open>|sum i j. w[c, i, j] * psi[i, j] * cell_area|^2\<close>: the weight enters as it is, it is not
  conjugated (\<open>linear\<close> is a plain matrix product, and the docstring of the class gives
  the same formula).
\<close>

theorem FieldDetector_forward_overlap:
  assumes init: "IntensityDetector_init (TensorObj w) z0 sp off = Inr det"
    and w: "tensor_wf w" "tensor_shape w = [C, H, W]"
    and f: "field_wf f" "tensor_dim (data f) = 2"
    and valid: "validate_field_geometry close gs det (FieldObj f :: complex pyobj) = Inr ()"
  shows "FieldDetector_forward close gs det (FieldObj f) =
           Inr (Tensor [C]
             (map (\<lambda>c. (cmod (\<Sum>i<H. \<Sum>j<W. tensor_at w [c, i, j] * tensor_at (data f) [i, j]
                                   * complex_of_real (cell_area det)))\<^sup>2) [0..<C]))"
proof -
  from init_detector[OF init] w have det: "weight det = w" "shape det = (H, W)"
    by simp_all
  from validated_shape[OF valid] det have sf: "shape f = (H, W)" by simp
  define psi where "psi = data f"
  from field_2d_shape[OF f] sf
  have psi: "tensor_shape psi = [H, W]" "length (tensor_data psi) = H * W"
    by (simp_all add: psi_def)
  have fl_psi: "flatten_m2 psi = Inr (Tensor [H * W] (tensor_data psi))"
    using psi by (simp add: flatten_m2_def)
  have fl_w: "flatten_m2 w = Inr (Tensor [C, H * W] (tensor_data w))"
    using w by (simp add: flatten_m2_def)
  have lw: "length (tensor_data w) = C * (H * W)"
    using w by (simp add: tensor_wf_def)
  have lin: "linear (Tensor [H * W] (tensor_data psi)) (Tensor [C, H * W] (tensor_data w)) =
      Inr (Tensor [C] (map (\<lambda>c. \<Sum>k<H * W. tensor_data psi ! k * tensor_data w ! (c * (H * W) + k)) [0..<C]))"
    using linear_vector[of "Tensor [H * W] (tensor_data psi)" "H * W" "Tensor [C, H * W] (tensor_data w)" C]
      psi lw by simp
  have entry: "(\<Sum>k<H * W. tensor_data psi ! k * tensor_data w ! (c * (H * W) + k)) * a
      = (\<Sum>i<H. \<Sum>j<W. tensor_at w [c, i, j] * tensor_at psi [i, j] * a)" for c a
    unfolding sum_grid sum_distrib_right
    by (intro sum.cong refl)
       (simp add: tensor_at_def ravel_def w psi algebra_simps)
  show ?thesis
    by (simp add: FieldDetector_forward_def bind_err_def valid det fl_psi fl_w lin entry
          mul_scalar_def tensor_map_def comp_def abs_square_def flip: psi_def)
qed

theorem FieldDetector_forward_overlap_witness:
  "FieldDetector_forward (=) show_geometry
     \<lparr>shape = (1, 2), z = 0, spacing = (1, 2), offset = (0, 0), weight = Tensor [2, 1, 2] [1, \<i>, 1, - \<i>]\<rparr>
     (FieldObj \<lparr>shape = (1, 2), z = 0, spacing = (1, 2), offset = (0, 0),
        field_class = Field, data = Tensor [1, 2] [1, \<i>], wavelength = 1\<rparr>)
   = Inr (Tensor [2] [0, 16])"
proof -
  let ?w = "Tensor [2, 1, 2] [1, \<i>, 1, - \<i>]"
  let ?det = "\<lparr>shape = (1, 2), z = 0, spacing = (1, 2), offset = (0, 0), weight = ?w\<rparr>"
  let ?f = "\<lparr>shape = (1, 2), z = 0, spacing = (1, 2), offset = (0, 0),
        field_class = Field, data = Tensor [1, 2] [1, \<i>], wavelength = 1\<rparr>"
  have init: "IntensityDetector_init (TensorObj ?w) 0 (1, 2) (0, 0) = Inr ?det"
    by (simp add: IntensityDetector_init_def bind_err_def validate_weight_def tensor_dim_def
          PlanarGeometry_init_def planar_geometry.extend_def intensity_detector.fields_def)
  have valid: "validate_field_geometry (=) show_geometry ?det (FieldObj ?f :: complex pyobj) = Inr ()"
    by (simp add: validate_field_geometry_def is_same_geometry_def)
  have "[0..<2] = [0, Suc 0]" by (simp add: upt_rec)
  then show ?thesis
    using FieldDetector_forward_overlap[OF init _ _ _ _ valid, of 2 1 2]
    by (simp add: tensor_wf_def field_wf_def Let_def tensor_dim_def tensor_at_def ravel_def
          cell_area_def lessThan_Suc numeral_2_eq_2 norm_mult algebra_simps)
qed

text \<open>
  \<^bold>\<open>C1\<close> as stated, with the conjugated weight, fails: for the weight \<open>[[1, i]]\<close> and
  the field \<open>[[1, i]]\<close> on unit cells the detector returns \<open>|1 + i * i|^2 = 0\<close>, while
  the conjugate-weighted overlap is \<open>|1 + cnj i * i|^2 = 4\<close>.
\<close>

theorem FieldDetector_forward_conjugate_counterexample:
  "FieldDetector_forward (=) show_geometry
     \<lparr>shape = (1, 2), z = 0, spacing = (1, 1), offset = (0, 0), weight = Tensor [1, 1, 2] [1, \<i>]\<rparr>
     (FieldObj \<lparr>shape = (1, 2), z = 0, spacing = (1, 1), offset = (0, 0),
        field_class = Field, data = Tensor [1, 2] [1, \<i>], wavelength = 1\<rparr>)
   = Inr (Tensor [1] [0])
   \<and> (cmod (cnj (tensor_at (Tensor [1, 1, 2] [1, \<i>]) [0, 0, 0]) * tensor_at (Tensor [1, 2] [1, \<i>]) [0, 0]
              * complex_of_real (cell_area \<lparr>shape = (1, 2), z = 0, spacing = (1, 1), offset = (0, 0)\<rparr>)
            + cnj (tensor_at (Tensor [1, 1, 2] [1, \<i>]) [0, 0, 1]) * tensor_at (Tensor [1, 2] [1, \<i>]) [0, 1]
              * complex_of_real (cell_area \<lparr>shape = (1, 2), z = 0, spacing = (1, 1), offset = (0, 0)\<rparr>)))\<^sup>2
       = 4"
  by (simp add: FieldDetector_forward_def bind_err_def validate_field_geometry_def
        is_same_geometry_def flatten_m2_def linear_def tensor_rows_def dot_def
        mul_scalar_def tensor_map_def abs_square_def tensor_at_def ravel_def cell_area_def
        upt_rec numeral_2_eq_2)

text \<open>
  \<^bold>\<open>C4\<close>. \<open>validate_field_geometry\<close> raises a TypeError for an argument that is no
  instance of the Field family, raises a ValueError whose message holds the geometry
  strings of the field and of the element for a Field whose geometry is not the same as
  the element's, and returns normally otherwise. Each of the five \<open>forward\<close> methods
  runs it first: when the validation raises, \<open>forward\<close> raises the same error, whatever
  the transform (\<open>modulate\<close>, \<open>polarized_modulate\<close>) would do. The functions are pure,
  so the argument is as it was.
\<close>

theorem validate_field_geometry_before_transform:
  fixes me :: modulation_element and pe :: polarized_modulation_element
    and de :: planar_geometry and idet :: "real intensity_detector"
    and fdet :: "complex intensity_detector" and x :: "complex pyobj"
  shows
    "(\<not> isinstance_Field x \<longrightarrow>
        validate_field_geometry close gs self x
          = Inl (TypeError (''Expected field to be a Field, but got '' @ type_name x @ ''.'')))
     \<and> (x = FieldObj f \<and> \<not> is_same_geometry close self f \<longrightarrow>
        (\<exists>pre mid. validate_field_geometry close gs self x
           = Inl (ValueError (pre @ gs (planar_geometry.truncate f) @ mid
                    @ gs (planar_geometry.truncate self)))))
     \<and> (x = FieldObj f \<and> is_same_geometry close self f \<longrightarrow>
        validate_field_geometry close gs self x = Inr ())
     \<and> (validate_field_geometry close gs me x = Inl e \<longrightarrow>
        ModulationElement_forward close gs mfn me x = Inl e)
     \<and> (validate_field_geometry close gs pe x = Inl e \<longrightarrow>
        PolarizedModulationElement_forward close gs pfn pe x = Inl e)
     \<and> (validate_field_geometry close gs de x = Inl e \<longrightarrow>
        Detector_forward close gs de x = Inl e)
     \<and> (validate_field_geometry close gs idet x = Inl e \<longrightarrow>
        IntensityDetector_forward close gs idet x = Inl e)
     \<and> (validate_field_geometry close gs fdet x = Inl e \<longrightarrow>
        FieldDetector_forward close gs fdet x = Inl e)"
proof -
  have a: "\<not> isinstance_Field x \<longrightarrow>
        validate_field_geometry close gs self x
          = Inl (TypeError (''Expected field to be a Field, but got '' @ type_name x @ ''.''))"
    by (simp add: validate_field_geometry_def)
  have b: "x = FieldObj f \<and> \<not> is_same_geometry close self f \<longrightarrow>
        (\<exists>pre mid. validate_field_geometry close gs self x
           = Inl (ValueError (pre @ gs (planar_geometry.truncate f) @ mid
                    @ gs (planar_geometry.truncate self))))"
  proof (intro impI, elim conjE)
    assume "x = FieldObj f" "\<not> is_same_geometry close self f"
    then have "validate_field_geometry close gs self x
      = Inl (ValueError ((''Expected field to have same geometry as element:''
              @ [CHR 0x0A] @ ''Field geometry:   '') @ gs (planar_geometry.truncate f)
              @ ([CHR 0x0A] @ ''Element geometry: '') @ gs (planar_geometry.truncate self)))"
      by (simp add: validate_field_geometry_def)
    then show "\<exists>pre mid. validate_field_geometry close gs self x
           = Inl (ValueError (pre @ gs (planar_geometry.truncate f) @ mid
                    @ gs (planar_geometry.truncate self)))"
      by blast
  qed
  have c: "x = FieldObj f \<and> is_same_geometry close self f \<longrightarrow>
        validate_field_geometry close gs self x = Inr ()"
    by (simp add: validate_field_geometry_def)
  show ?thesis
    using a b c
    by (simp add: ModulationElement_forward_def PolarizedModulationElement_forward_def
          Detector_forward_def IntensityDetector_forward_def FieldDetector_forward_def
          bind_err_Inl)
qed

theorem validate_field_geometry_before_transform_witness:
  "ModulationElement_forward (=) show_geometry (\<lambda>f p. Inr f)
     \<lparr>shape = (1, 2), z = 0, spacing = (1, 1), offset = (0, 0), modulation_profile = Tensor [1, 2] [1, 1]\<rparr>
     (OtherObj ''str'' :: complex pyobj)
   = Inl (TypeError ''Expected field to be a Field, but got str.'')
   \<and> (\<exists>pre mid. Detector_forward (=) show_geometry
        \<lparr>shape = (1, 2), z = 0, spacing = (1, 1), offset = (0, 0)\<rparr>
        (FieldObj \<lparr>shape = (1, 2), z = 2, spacing = (1, 1), offset = (0, 0),
           field_class = Field, data = Tensor [3, 1, 2] [1, 1, 1, 1, 1, 1], wavelength = 1\<rparr> :: complex pyobj)
      = Inl (ValueError (pre @ ''1x2'' @ mid @ ''1x2'')))"
proof -
  let ?me = "\<lparr>shape = (1, 2), z = 0, spacing = (1, 1), offset = (0, 0), modulation_profile = Tensor [1, 2] [1, 1]\<rparr>"
  let ?de = "\<lparr>shape = (1, 2), z = 0, spacing = (1, 1), offset = (0, 0)\<rparr>"
  let ?f = "\<lparr>shape = (1, 2), z = 2, spacing = (1, 1), offset = (0, 0),
           field_class = Field, data = Tensor [3, 1, 2] [1, 1, 1, 1, 1, 1], wavelength = 1\<rparr>"
  note T = validate_field_geometry_before_transform
  have 1: "ModulationElement_forward (=) show_geometry (\<lambda>f p. Inr f) ?me (OtherObj ''str'' :: complex pyobj)
     = Inl (TypeError ''Expected field to be a Field, but got str.'')"
    using T[where x = "OtherObj ''str''" and close = "(=)" and gs = show_geometry and self = ?me
            and me = ?me and e = "TypeError ''Expected field to be a Field, but got str.''"
            and mfn = "\<lambda>f p. Inr f"]
    by simp
  have "\<exists>pre mid. validate_field_geometry (=) show_geometry ?de (FieldObj ?f :: complex pyobj)
           = Inl (ValueError (pre @ show_geometry (planar_geometry.truncate ?f) @ mid
                    @ show_geometry (planar_geometry.truncate ?de)))"
    using T[where x = "FieldObj ?f" and close = "(=)" and gs = show_geometry and self = ?de
            and f = ?f]
    by (simp add: is_same_geometry_def)
  then obtain pre mid where v: "validate_field_geometry (=) show_geometry ?de (FieldObj ?f :: complex pyobj)
           = Inl (ValueError (pre @ ''1x2'' @ mid @ ''1x2''))"
    by (auto simp: show_geometry_def planar_geometry.truncate_def)
  have "Detector_forward (=) show_geometry ?de (FieldObj ?f :: complex pyobj)
      = Inl (ValueError (pre @ ''1x2'' @ mid @ ''1x2''))"
    using T[where x = "FieldObj ?f" and close = "(=)" and gs = show_geometry and de = ?de
            and e = "ValueError (pre @ ''1x2'' @ mid @ ''1x2'')",
            THEN conjunct2, THEN conjunct2, THEN conjunct2, THEN conjunct2, THEN conjunct2,
            THEN conjunct1] v
    by simp
  with 1 show ?thesis by blast
qed

text \<open>
  \<^bold>\<open>C3\<close> (as the code has it). A Field's data tensor has at least two axes, and its
  last two axes are the planar shape; leading axes are accepted. Constructing a Field
  from a tensor with fewer than two axes fails with a ValueError, constructing it from an
  object that is no tensor fails with a TypeError.
\<close>

theorem Field_init_data_validation:
  "(\<not> isinstance_Tensor x \<longrightarrow> (\<exists>m. Field_init x wl z0 sp off = Inl (TypeError m)))
   \<and> (x = TensorObj t \<and> tensor_dim t < 2 \<longrightarrow> (\<exists>m. Field_init x wl z0 sp off = Inl (ValueError m)))
   \<and> (Field_init x wl z0 sp off = Inr f \<longrightarrow>
        (\<exists>t. x = TensorObj t \<and> data f = t \<and> 2 \<le> tensor_dim t
           \<and> drop (tensor_dim t - 2) (tensor_shape t) = [fst (shape f), snd (shape f)]))"
proof -
  have a: "\<not> isinstance_Tensor x \<longrightarrow> (\<exists>m. Field_init x wl z0 sp off = Inl (TypeError m))"
    by (cases x) (simp_all add: isinstance_Tensor_def Field_init_def validate_data_def bind_err_def)
  have b: "x = TensorObj t \<and> tensor_dim t < 2 \<longrightarrow> (\<exists>m. Field_init x wl z0 sp off = Inl (ValueError m))"
    by (simp add: Field_init_def validate_data_def bind_err_def)
  have c: "\<exists>t. x = TensorObj t \<and> data f = t \<and> 2 \<le> tensor_dim t
           \<and> drop (tensor_dim t - 2) (tensor_shape t) = [fst (shape f), snd (shape f)]"
    if run: "Field_init x wl z0 sp off = Inr f"
  proof (cases x)
    case (TensorObj t)
    with run have d: "2 \<le> tensor_dim t"
      by (auto simp: Field_init_def validate_data_def bind_err_def split: if_splits)
    with run TensorObj
    have f: "data f = t" "shape f = (tensor_shape t ! (tensor_dim t - 2), tensor_shape t ! (tensor_dim t - 1))"
      by (auto simp: Field_init_def validate_data_def bind_err_def PlanarGeometry_init_def
            planar_geometry.extend_def field.fields_def split: if_splits)
    from drop_last2[of "tensor_shape t"] d f TensorObj show ?thesis
      by (simp add: tensor_dim_def)
  qed (use run in \<open>simp_all add: Field_init_def validate_data_def bind_err_def\<close>)
  from a b c show ?thesis by blast
qed

theorem Field_init_data_validation_witness:
  "(\<exists>m. Field_init (OtherObj ''str'') 1 0 (1, 1) (0, 0) = Inl (TypeError m))
   \<and> (\<exists>m. Field_init (TensorObj (Tensor [2] [1, 1])) 1 0 (1, 1) (0, 0) = Inl (ValueError m))"
  using Field_init_data_validation[of "OtherObj ''str''" 1 0 "(1, 1)" "(0, 0)"]
    Field_init_data_validation[of "TensorObj (Tensor [2] [1, 1])" 1 0 "(1, 1)" "(0, 0)" "Tensor [2] [1, 1]"]
  by (simp add: isinstance_Tensor_def tensor_dim_def)

text \<open>
  \<^bold>\<open>C3\<close> as stated fails: data of shape \<open>(3, 1, 2)\<close>, which is not 2-D, is accepted, and
  the Field keeps the leading axis (the tests build such Fields, of shape \<open>(3, 64, 64)\<close>).
\<close>

theorem Field_init_batch_counterexample:
  "tensor_dim (Tensor [3, 1, 2] [1, 1, 1, 1, 1, 1 :: complex]) \<noteq> 2
   \<and> Field_init (TensorObj (Tensor [3, 1, 2] [1, 1, 1, 1, 1, 1])) 1 0 (1, 1) (0, 0)
       = Inr \<lparr>shape = (1, 2), z = 0, spacing = (1, 1), offset = (0, 0),
              field_class = Field, data = Tensor [3, 1, 2] [1, 1, 1, 1, 1, 1], wavelength = 1\<rparr>"
  by (simp add: tensor_dim_def Field_init_def validate_data_def bind_err_def
        PlanarGeometry_init_def planar_geometry.extend_def field.fields_def)

text \<open>
  \<^bold>\<open>C7\<close>. For a field with strictly positive power and a target power \<open>P > 0\<close>,
  \<open>normalize(P)\<close> returns a new field whose power is \<open>P\<close>; on a field whose power is zero
  it fails with a validation error (a ValueError) and returns no field.
\<close>

theorem normalize_power:
  assumes wf: "field_wf f"
  shows "(0 < power f \<and> 0 < P \<longrightarrow> (\<exists>g. normalize f P = Inr g \<and> power g = P))
         \<and> (power f = 0 \<longrightarrow> (\<exists>m. normalize f P = Inl (ValueError m)))"
proof -
  have "\<exists>g. normalize f P = Inr g \<and> power g = P" if pos: "0 < power f" "0 < P"
  proof -
    from pos obtain g where run: "normalize f P = Inr g"
      by (auto simp: normalize_def)
    with normalize_power_value[OF wf pos run] show ?thesis by blast
  qed
  moreover have "\<exists>m. normalize f P = Inl (ValueError m)" if "power f = 0"
    using that by (simp add: normalize_def)
  ultimately show ?thesis by blast
qed

theorem normalize_power_witness:
  "(\<exists>g. normalize \<lparr>shape = (1, 2), z = 0, spacing = (1, 1), offset = (0, 0),
            field_class = Field, data = Tensor [1, 2] [3, 4], wavelength = 1\<rparr> 100 = Inr g
        \<and> power g = 100)
   \<and> (\<exists>m. normalize \<lparr>shape = (1, 2), z = 0, spacing = (1, 1), offset = (0, 0),
            field_class = Field, data = Tensor [1, 2] [0, 0], wavelength = 1\<rparr> 100
          = Inl (ValueError m))"
proof -
  let ?f = "\<lparr>shape = (1, 2), z = 0, spacing = (1, 1), offset = (0, 0),
            field_class = Field, data = Tensor [1, 2] [3, 4], wavelength = 1\<rparr>"
  let ?z = "\<lparr>shape = (1, 2), z = 0, spacing = (1, 1), offset = (0, 0),
            field_class = Field, data = Tensor [1, 2] [0, 0], wavelength = 1\<rparr>"
  have wf: "field_wf ?f" "field_wf ?z"
    by (simp_all add: field_wf_def tensor_wf_def Let_def)
  have p: "power ?f = 25" "power ?z = 0"
    by (simp_all add: power_def intensity_def tensor_map_def abs_square_def cell_area_def)
  from normalize_power[OF wf(1), of 100] normalize_power[OF wf(2), of 100] p
  show ?thesis by simp
qed

text \<open>
  \<^bold>\<open>C2\<close>. For a Field \<open>psi\<close> (two-dimensional data), the intensity of the CoherenceField
  built from \<open>outer2d(psi, psi)\<close> is the intensity of the Field, and the equality is kept
  when both are modulated by the same profile, propagated to the same destination plane
  (by a diffraction algorithm that is linear in the field), or normalized to the same
  target power, which the CoherenceField then has.
\<close>

theorem coherence_intensity_equivalence:
  assumes wf: "field_wf f" and cls: "field_class f = Field" and d2: "tensor_dim (data f) = 2"
  shows "intensity (CoherenceField_of f) = intensity f
    \<and> (\<forall>m f'. modulate f m = Inr f' \<longrightarrow>
          (\<exists>c'. modulate (CoherenceField_of f) m = Inr c' \<and> intensity c' = intensity f'))
    \<and> (\<forall>propagator dest f'.
          propagator_linear propagator \<and> propagate propagator f dest = Inr f' \<longrightarrow>
          (\<exists>c'. propagate propagator (CoherenceField_of f) dest = Inr c'
             \<and> intensity c' = intensity f'))
    \<and> (\<forall>P f'. 0 < P \<and> 0 < power f \<and> normalize f P = Inr f' \<longrightarrow>
          (\<exists>c'. normalize (CoherenceField_of f) P = Inr c'
             \<and> intensity c' = intensity f' \<and> power c' = P))"
proof (intro conjI allI impI)
  show "intensity (CoherenceField_of f) = intensity f"
    by (rule intensity_CoherenceField_of[OF wf cls d2])
next
  fix m f' assume run: "modulate f m = Inr f'"
  from modulate_Field_wf[OF wf cls d2 run]
  have "intensity (CoherenceField_of f') = intensity f'"
    by (intro intensity_CoherenceField_of) simp_all
  with modulate_CoherenceField_of[OF wf cls d2 run]
  show "\<exists>c'. modulate (CoherenceField_of f) m = Inr c' \<and> intensity c' = intensity f'"
    by blast
next
  fix propagator dest f'
  assume "propagator_linear propagator \<and> propagate propagator f dest = Inr f'"
  then have lin: "propagator_linear propagator" and run: "propagate propagator f dest = Inr f'"
    by simp_all
  from propagate_CoherenceField_of[OF wf cls d2 lin run]
  have c: "propagate propagator (CoherenceField_of f) dest = Inr (CoherenceField_of f')"
    and "field_wf f'" "field_class f' = Field" "tensor_dim (data f') = 2"
    by simp_all
  then have "intensity (CoherenceField_of f') = intensity f'"
    by (intro intensity_CoherenceField_of)
  with c show "\<exists>c'. propagate propagator (CoherenceField_of f) dest = Inr c'
             \<and> intensity c' = intensity f'"
    by blast
next
  fix P f' assume "0 < P \<and> 0 < power f \<and> normalize f P = Inr f'"
  then have P: "0 < P" and pw: "0 < power f" and run: "normalize f P = Inr f'"
    by simp_all
  from normalize_CoherenceField_of[OF wf cls d2 P pw run]
  have c: "normalize (CoherenceField_of f) P = Inr (CoherenceField_of f')"
    and f': "field_wf f'" "field_class f' = Field" "tensor_dim (data f') = 2"
    by simp_all
  have i: "intensity (CoherenceField_of f') = intensity f'"
    using f' by (intro intensity_CoherenceField_of)
  have "power f' = P"
    using normalize_power_value[OF wf pw P run] .
  then have "power (CoherenceField_of f') = P"
    using power_CoherenceField_of[OF f'] by simp
  with c i show "\<exists>c'. normalize (CoherenceField_of f) P = Inr c'
             \<and> intensity c' = intensity f' \<and> power c' = P"
    by blast
qed


theorem coherence_intensity_equivalence_witness:
  "intensity (CoherenceField_of \<lparr>shape = (1, 2), z = 0, spacing = (1, 1), offset = (0, 0),
       field_class = Field, data = Tensor [1, 2] [3, 4], wavelength = 1\<rparr>) = Tensor [1, 2] [9, 16]
   \<and> (\<exists>c'. modulate (CoherenceField_of \<lparr>shape = (1, 2), z = 0, spacing = (1, 1), offset = (0, 0),
              field_class = Field, data = Tensor [1, 2] [3, 4], wavelength = 1\<rparr>)
            (Tensor [1, 2] [\<i>, 2]) = Inr c'
          \<and> intensity c' = Tensor [1, 2] [9, 64])
   \<and> (\<exists>c'. propagate sum_propagator
            (CoherenceField_of \<lparr>shape = (1, 2), z = 0, spacing = (1, 1), offset = (0, 0),
              field_class = Field, data = Tensor [1, 2] [3, 4], wavelength = 1\<rparr>)
            \<lparr>shape = (1, 1), z = 1, spacing = (1, 1), offset = (0, 0)\<rparr> = Inr c'
          \<and> intensity c' = Tensor [1, 1] [49])
   \<and> (\<exists>c'. normalize (CoherenceField_of \<lparr>shape = (1, 2), z = 0, spacing = (1, 1), offset = (0, 0),
              field_class = Field, data = Tensor [1, 2] [3, 4], wavelength = 1\<rparr>) 100 = Inr c'
          \<and> intensity c' = Tensor [1, 2] [36, 64] \<and> power c' = 100)"
proof -
  let ?f = "\<lparr>shape = (1, 2), z = 0, spacing = (1, 1), offset = (0, 0),
       field_class = Field, data = Tensor [1, 2] [3, 4], wavelength = 1\<rparr>"
  let ?fm = "?f\<lparr>data := Tensor [1, 2] [3 * \<i>, 8]\<rparr>"
  let ?dest = "\<lparr>shape = (1, 1), z = 1, spacing = (1, 1), offset = (0, 0)\<rparr>"
  let ?fp = "\<lparr>shape = (1, 1), z = 1, spacing = (1, 1), offset = (0, 0),
       field_class = Field, data = Tensor [1, 1] [7], wavelength = 1\<rparr>"
  let ?fn = "?f\<lparr>data := Tensor [1, 2] [6, 8]\<rparr>"
  have wf: "field_wf ?f" and cls: "field_class ?f = Field" and d2: "tensor_dim (data ?f) = 2"
    by (simp_all add: field_wf_def tensor_wf_def tensor_dim_def Let_def)
  note T = coherence_intensity_equivalence[OF wf cls d2]
  have i0: "intensity ?f = Tensor [1, 2] [9, 16]"
    by (simp add: intensity_def tensor_map_def abs_square_def)
  have pw: "power ?f = 25"
    using i0 by (simp add: power_def cell_area_def)
  have m: "modulate ?f (Tensor [1, 2] [\<i>, 2]) = Inr ?fm"
    by (simp add: modulate_def Let_def tensor_wf_def tensor_rows_def)
  have im: "intensity ?fm = Tensor [1, 2] [9, 64]"
    by (simp add: intensity_def tensor_map_def abs_square_def norm_mult)
  have p: "propagate sum_propagator ?f ?dest = Inr ?fp"
    by (simp add: propagate_def sum_propagator_def bind_err_def Let_def tensor_rows_def
          planar_geometry.truncate_def)
  have ip: "intensity ?fp = Tensor [1, 1] [49]"
    by (simp add: intensity_def tensor_map_def abs_square_def)
  have "sqrt (100 / 25) = 2"
    using real_sqrt_abs[of 2] by simp
  then have n: "normalize ?f 100 = Inr ?fn"
    using pw by (simp add: normalize_def mul_scalar_def tensor_map_def)
  have "in": "intensity ?fn = Tensor [1, 2] [36, 64]"
    by (simp add: intensity_def tensor_map_def abs_square_def)
  from T i0 have a: "intensity (CoherenceField_of ?f) = Tensor [1, 2] [9, 16]"
    by simp
  from T m im have b: "\<exists>c'. modulate (CoherenceField_of ?f) (Tensor [1, 2] [\<i>, 2]) = Inr c'
          \<and> intensity c' = Tensor [1, 2] [9, 64]"
    by metis
  from T sum_propagator_linear p ip
  have c: "\<exists>c'. propagate sum_propagator (CoherenceField_of ?f) ?dest = Inr c'
          \<and> intensity c' = Tensor [1, 1] [49]"
    by metis
  have "(0::real) < 100 \<and> 0 < power ?f \<and> normalize ?f 100 = Inr ?fn"
    using n pw by simp
  with T "in" have d: "\<exists>c'. normalize (CoherenceField_of ?f) 100 = Inr c'
          \<and> intensity c' = Tensor [1, 2] [36, 64] \<and> power c' = 100"
    by metis
  from a b c d show ?thesis by blast
qed

text \<open>
  \<^bold>\<open>C8\<close>. For a source Field of shape \<open>(N0, N1)\<close> and pad factors \<open>(p0, p1)\<close>,
  angular-spectrum propagation with \<open>asm_pad_factor = (p0, p1)\<close> gives the same
  destination field, at every destination geometry, as propagation with pad factor 0 of
  the Field whose data are the same data embedded centrally in a grid of zeros of size
  \<open>((1 + 2 * p0) * N0, (1 + 2 * p1) * N1)\<close> with the same spacing; one fails when the
  other does.
\<close>

theorem asm_pad_factor_zero_embed:
  assumes wf: "field_wf f" and cls: "field_class f = Field" and d2: "tensor_dim (data f) = 2"
  shows "propagate (asm_propagator asm_core pad) f dest
           = propagate (asm_propagator asm_core (0, 0)) (Field_zero_embed pad f) dest"
proof -
  note sh = field_2d_wf[OF wf d2]
  define psi where "psi = tensor_data (data f)"
  define g where "g = (planar_geometry.truncate f)\<lparr>shape := padded_shape pad (shape f)\<rparr>"
  have lpsi: "length psi = fst (shape f) * snd (shape f)" using sh by (simp add: psi_def)
  have emb: "asm_pad pad (shape f) psi = zero_embed pad (shape f) psi"
    using asm_pad_zero_embed[OF lpsi] .
  have lemb: "length (zero_embed pad (shape f) psi)
      = fst (padded_shape pad (shape f)) * snd (padded_shape pad (shape f))"
    by (rule length_zero_embed)
  have none: "asm_pad (0, 0) (padded_shape pad (shape f)) (zero_embed pad (shape f) psi)
      = zero_embed pad (shape f) psi"
    using asm_pad_none[OF lemb] .
  have g0: "(planar_geometry.truncate (Field_zero_embed pad f))
               \<lparr>shape := padded_shape (0, 0) (shape (Field_zero_embed pad f))\<rparr> = g"
    by (simp add: Field_zero_embed_def planar_geometry.truncate_def g_def padded_shape_def)
  have pl: "asm_propagator asm_core pad (wavelength f) (planar_geometry.truncate f) dest
      = bind_err (asm_core (wavelength f) g dest) (\<lambda>K. Inr (\<lambda>v. K (asm_pad pad (shape f) v)))"
    by (simp add: asm_propagator_def g_def planar_geometry.truncate_def)
  have pr: "asm_propagator asm_core (0, 0) (wavelength (Field_zero_embed pad f))
        (planar_geometry.truncate (Field_zero_embed pad f)) dest
      = bind_err (asm_core (wavelength f) g dest)
          (\<lambda>K. Inr (\<lambda>v. K (asm_pad (0, 0) (padded_shape pad (shape f)) v)))"
  proof -
    have "padded_shape (0, 0) (padded_shape pad (shape f)) = padded_shape pad (shape f)"
      by (simp add: padded_shape_def)
    then show ?thesis
      by (simp add: asm_propagator_def Field_zero_embed_def planar_geometry.truncate_def g_def)
  qed
  show ?thesis
  proof (cases "asm_core (wavelength f) g dest")
    case (Inl e)
    then show ?thesis
      by (simp add: propagate_def pl pr bind_err_def)
  next
    case (Inr K)
    have l: "propagate (asm_propagator asm_core pad) f dest
        = Inr (f\<lparr>shape := shape dest, z := z dest, spacing := spacing dest, offset := offset dest,
                data := Tensor [fst (shape dest), snd (shape dest)] (K (zero_embed pad (shape f) psi))\<rparr>)"
      using Inr cls sh lpsi emb
      by (simp add: propagate_def pl bind_err_def Let_def tensor_rows_def flip: psi_def)
    have r: "propagate (asm_propagator asm_core (0, 0)) (Field_zero_embed pad f) dest
        = Inr (f\<lparr>shape := shape dest, z := z dest, spacing := spacing dest, offset := offset dest,
                data := Tensor [fst (shape dest), snd (shape dest)] (K (zero_embed pad (shape f) psi))\<rparr>)"
      using Inr cls lemb none
      by (simp add: propagate_def pr bind_err_def Let_def tensor_rows_def)
         (simp add: Field_zero_embed_def tensor_rows_def flip: psi_def)
    from l r show ?thesis by simp
  qed
qed


theorem asm_pad_factor_zero_embed_witness:
  "propagate (asm_propagator sum_propagator (0, 0))
     (Field_zero_embed (1, 1) \<lparr>shape = (1, 2), z = 0, spacing = (1, 1), offset = (0, 0),
        field_class = Field, data = Tensor [1, 2] [3, 4], wavelength = 1\<rparr>)
     \<lparr>shape = (1, 1), z = 1, spacing = (1, 1), offset = (0, 0)\<rparr>
   = Inr \<lparr>shape = (1, 1), z = 1, spacing = (1, 1), offset = (0, 0),
          field_class = Field, data = Tensor [1, 1] [7], wavelength = 1\<rparr>"
proof -
  let ?f = "\<lparr>shape = (1, 2), z = 0, spacing = (1, 1), offset = (0, 0),
        field_class = Field, data = Tensor [1, 2] [3, 4], wavelength = 1\<rparr>"
  let ?dest = "\<lparr>shape = (1, 1), z = 1, spacing = (1, 1), offset = (0, 0)\<rparr>"
  have wf: "field_wf ?f" and cls: "field_class ?f = Field" and d2: "tensor_dim (data ?f) = 2"
    by (simp_all add: field_wf_def tensor_wf_def tensor_dim_def Let_def)
  have "propagate (asm_propagator sum_propagator (1, 1)) ?f ?dest
      = Inr \<lparr>shape = (1, 1), z = 1, spacing = (1, 1), offset = (0, 0),
          field_class = Field, data = Tensor [1, 1] [7], wavelength = 1\<rparr>"
    by (simp add: propagate_def asm_propagator_def sum_propagator_def bind_err_def Let_def
          tensor_rows_def asm_pad_def padded_shape_def planar_geometry.truncate_def
          sum_list_replicate)
  then show ?thesis
    using asm_pad_factor_zero_embed[OF wf cls d2, of sum_propagator "(1, 1)" ?dest]
    by simp
qed

text \<open>
  \<^bold>\<open>C10\<close> (as the code has it). For a valid shape, spacing and offset and \<open>scale > 0\<close> such
  that, at every grid point whose radial distance \<open>r\<close> is not 0, the double \<open>r / scale\<close>
  is finite and not zero (so \<open>x**2 + y**2\<close> does not overflow, and \<open>r / scale\<close> neither
  overflows nor underflows to zero), \<open>airy\<close> returns a tensor of the planar shape in which
  no entry is a NaN: at every grid point with \<open>r = 0\<close> the entry is exactly 1, and at every
  other grid point it is the value of the formula \<open>(2 * J1(r/a) / (r/a))^2\<close> in the
  arithmetic of doubles.
\<close>

theorem airy_no_nan_in_range:
  assumes geo: "PlanarGeometry_init shp 0 sp off = Inr g"
    and scale: "0 < scale"
    and scaled: "\<forall>i<fst shp. \<forall>j<snd shp. grid_radius g i j \<noteq> Fin 0 \<longrightarrow>
        is_finite (ddiv (grid_radius g i j) (Fin scale))
        \<and> ddiv (grid_radius g i j) (Fin scale) \<noteq> Fin 0"
  shows "\<exists>t. airy shp scale sp off = Inr t
           \<and> tensor_shape t = [fst shp, snd shp]
           \<and> (\<forall>i<fst shp. \<forall>j<snd shp.
                 tensor_at t [i, j] \<noteq> NaN
                 \<and> (grid_radius g i j = Fin 0 \<longrightarrow> tensor_at t [i, j] = Fin 1)
                 \<and> (grid_radius g i j \<noteq> Fin 0 \<longrightarrow>
                      tensor_at t [i, j] = airy_formula (ddiv (grid_radius g i j) (Fin scale))))"
proof -
  have sh: "shape g = shp" using init_geometry(1)[OF geo] .
  let ?f = "\<lambda>u v. if dsqrt (dadd (dmul u u) (dmul v v)) = Fin 0 then Fin 1
                   else airy_formula (ddiv (dsqrt (dadd (dmul u u) (dmul v v))) (Fin scale))"
  let ?t = "tensor_map2 ?f (fst (meshgrid g)) (snd (meshgrid g))"
  have run: "airy shp scale sp off = Inr ?t"
    by (rule airy_value[OF geo])
  have shape_t: "tensor_shape ?t = [fst shp, snd shp]"
    by (simp add: tensor_map2_def meshgrid_shape sh)
  have entry: "tensor_at ?t [i, j] =
      (if grid_radius g i j = Fin 0 then Fin 1
       else airy_formula (ddiv (grid_radius g i j) (Fin scale)))"
    if ij: "i < fst shp" "j < snd shp" for i j
  proof -
    have idx: "i * snd shp + j < fst shp * snd shp"
      using grid_index_less[OF ij] .
    show ?thesis
      using idx
      by (simp add: tensor_at_def tensor_map2_def meshgrid_shape sh ravel_def
            grid_radius_def grid_x_def grid_y_def)
  qed
  have "tensor_at ?t [i, j] \<noteq> NaN
        \<and> (grid_radius g i j = Fin 0 \<longrightarrow> tensor_at ?t [i, j] = Fin 1)
        \<and> (grid_radius g i j \<noteq> Fin 0 \<longrightarrow>
             tensor_at ?t [i, j] = airy_formula (ddiv (grid_radius g i j) (Fin scale)))"
    if ij: "i < fst shp" "j < snd shp" for i j
  proof (cases "grid_radius g i j = Fin 0")
    case True
    then show ?thesis by (simp add: entry[OF ij])
  next
    case False
    with scaled ij obtain a where
      a: "ddiv (grid_radius g i j) (Fin scale) = Fin a" "a \<noteq> 0"
      by (cases "ddiv (grid_radius g i j) (Fin scale)") auto
    from airy_formula_not_NaN[OF a] False show ?thesis
      by (simp add: entry[OF ij])
  qed
  with run shape_t show ?thesis by blast
qed

theorem airy_no_nan_in_range_witness:
  "\<exists>t. airy (1, 3) 1 (1, 1) (0, 0) = Inr t
     \<and> tensor_shape t = [1, 3]
     \<and> tensor_at t [0, 1] = Fin 1
     \<and> tensor_at t [0, 2] = airy_formula (Fin 1)
     \<and> tensor_at t [0, 2] \<noteq> NaN"
proof -
  define g where "g = \<lparr>shape = (1::nat, 3::nat), z = 0::real,
    spacing = (1::real, 1::real), offset = (0::real, 0::real)\<rparr>"
  have geo: "PlanarGeometry_init (1, 3) 0 (1, 1) (0, 0) = Inr g"
    by (simp add: PlanarGeometry_init_def g_def)
  have mesh: "meshgrid g = (Tensor [1, 3] [Fin 0, Fin 0, Fin 0], Tensor [1, 3] [Fin (- 1), Fin 0, Fin 1])"
    by (simp add: meshgrid_def g_def Let_def outer_list_def upt_rec dadd_small del: dadd.simps)
  have r: "grid_radius g 0 0 = Fin 1" "grid_radius g 0 1 = Fin 0" "grid_radius g 0 2 = Fin 1"
    by (simp_all add: grid_radius_def grid_x_def grid_y_def mesh tensor_at_def ravel_def
          dadd_small del: dadd.simps)
  have scaled: "\<forall>i<fst (1::nat, 3::nat). \<forall>j<snd (1::nat, 3::nat). grid_radius g i j \<noteq> Fin 0 \<longrightarrow>
        is_finite (ddiv (grid_radius g i j) (Fin 1))
        \<and> ddiv (grid_radius g i j) (Fin 1) \<noteq> Fin 0"
  proof (intro allI impI)
    fix i j :: nat
    assume "i < fst (1::nat, 3::nat)" "j < snd (1::nat, 3::nat)"
    then have "i = 0" "j = 0 \<or> j = 1 \<or> j = 2" by auto
    moreover assume "grid_radius g i j \<noteq> Fin 0"
    ultimately show "is_finite (ddiv (grid_radius g i j) (Fin 1))
        \<and> ddiv (grid_radius g i j) (Fin 1) \<noteq> Fin 0"
      using r by auto
  qed
  from airy_no_nan_in_range[OF geo _ scaled] obtain t where
    t: "airy (1, 3) 1 (1, 1) (0, 0) = Inr t" "tensor_shape t = [fst (1::nat, 3::nat), snd (1::nat, 3::nat)]"
    and e: "\<forall>i<fst (1::nat, 3::nat). \<forall>j<snd (1::nat, 3::nat).
                 tensor_at t [i, j] \<noteq> NaN
                 \<and> (grid_radius g i j = Fin 0 \<longrightarrow> tensor_at t [i, j] = Fin 1)
                 \<and> (grid_radius g i j \<noteq> Fin 0 \<longrightarrow>
                      tensor_at t [i, j] = airy_formula (ddiv (grid_radius g i j) (Fin 1)))"
    by auto
  from e[rule_format, of 0 1] e[rule_format, of 0 2] r
  have "tensor_at t [0, 1] = Fin 1" "tensor_at t [0, 2] = airy_formula (Fin 1)"
    "tensor_at t [0, 2] \<noteq> NaN"
    by auto
  with t show ?thesis by simp
qed

text \<open>
  \<^bold>\<open>C10\<close> as stated, for every \<open>scale > 0\<close>, fails: on the grid of shape \<open>(1, 2)\<close> with
  spacing \<open>1e-150\<close> and \<open>scale = 1e200\<close> the two grid points have \<open>r = 5e-151\<close>, which is
  not 0, while \<open>r / scale = 5e-351\<close> underflows to 0; the formula divides 0 by 0 there
  and the overwrite at \<open>r == 0\<close> does not reach the entry, so both entries are NaN.
\<close>

theorem airy_underflow_counterexample:
  "airy (1, 2) (10 ^ 200) (1 / 10 ^ 150, 1 / 10 ^ 150) (0, 0) = Inr (Tensor [1, 2] [NaN, NaN])"
proof -
  define g where "g = \<lparr>shape = (1::nat, 2::nat), z = 0::real,
    spacing = (1 / 10 ^ 150 :: real, 1 / 10 ^ 150 :: real), offset = (0::real, 0::real)\<rparr>"
  have geo: "PlanarGeometry_init (1, 2) 0 (1 / 10 ^ 150, 1 / 10 ^ 150) (0, 0) = Inr g"
    by (simp add: PlanarGeometry_init_def g_def)
  define h :: real where "h = 1 / (2 * 10 ^ 150)"
  have h_pos: "0 < h" by (simp add: h_def)
  have m0: "dmul (Fin (- 1 / 2)) (Fin (1 / 10 ^ 150)) = Fin (- h)"
  proof -
    have "fl (- h) = Fin (- h)"
      by (rule fl_in_range) (simp_all add: h_def underflow_threshold_def overflow_threshold_def)
    then show ?thesis by (simp add: h_def)
  qed
  have m1: "dmul (Fin (1 / 2)) (Fin (1 / 10 ^ 150)) = Fin h"
  proof -
    have "fl h = Fin h"
      by (rule fl_in_range) (simp_all add: h_def underflow_threshold_def overflow_threshold_def)
    then show ?thesis by (simp add: h_def)
  qed
  have mesh: "meshgrid g = (Tensor [1, 2] [Fin 0, Fin 0], Tensor [1, 2] [Fin (- h), Fin h])"
    using m0 m1
    by (simp add: meshgrid_def g_def Let_def outer_list_def upt_rec
          overflow_threshold_def h_def)
  have sq: "fl (h * h) = Fin (h * h)"
    by (rule fl_in_range) (simp_all add: h_def underflow_threshold_def overflow_threshold_def)
  have add: "dadd (Fin 0) (Fin (h * h)) = Fin (h * h)"
  proof -
    have "h * h < overflow_threshold" "\<not> h * h \<le> - overflow_threshold"
      by (simp_all add: h_def overflow_threshold_def)
    then show ?thesis by simp
  qed
  have r: "dsqrt (dadd (dmul (Fin 0) (Fin 0)) (dmul (Fin h) (Fin h))) = Fin h"
       "dsqrt (dadd (dmul (Fin 0) (Fin 0)) (dmul (Fin (- h)) (Fin (- h)))) = Fin h"
    using h_pos by (simp_all add: sq add del: dadd.simps)
  have s: "ddiv (Fin h) (Fin (10 ^ 200)) = Fin 0"
  proof -
    have "fl (h / 10 ^ 200) = Fin 0"
      by (rule fl_underflow) (simp add: h_def underflow_threshold_def)
    then show ?thesis by simp
  qed
  show ?thesis
    unfolding airy_value[OF geo] mesh
    using s h_pos
    by (simp add: tensor_map2_def r airy_formula_zero
          del: dmul.simps dadd.simps dsqrt.simps ddiv.simps)
qed

text \<open>
  \<^bold>\<open>C9\<close> (as the code has it). Take a valid shape, spacing and offset whose grid coordinates
  are finite, and \<open>waist_radius > 0\<close> whose square neither underflows to zero nor
  overflows, the square of the prefactor \<open>2 / (pi * w0^2)\<close> not overflowing either. Then
  \<open>gaussian_schell_model\<close> with \<open>coherence_width = 0\<close> raises nothing, no division by zero
  in particular: it returns the tensor \<open>sqrt(I(x1,y1) * I(x2,y2)) * delta\<close>, where \<open>delta\<close>
  is 1 exactly at the pairs of grid points with \<open>x1 = x2\<close> and \<open>y1 = y2\<close> and 0 elsewhere.
  No entry is a NaN, and the diagonal entry of a grid point is its Gaussian intensity
  wherever the square of that intensity does not underflow (the intensity is 0, or its
  square is at least the smallest normal double); so is the diagonal for every
  \<open>coherence_width > 0\<close> whose square neither underflows to zero nor overflows.
\<close>

theorem gaussian_schell_model_incoherent_in_range:
  assumes geo: "PlanarGeometry_init shp 0 sp off = Inr g"
    and w0: "0 < w0"
    and lo: "underflow_threshold < w0 * w0" and hi: "w0 * w0 < overflow_threshold"
    and pref: "(2 / (pi * (w0 * w0))) * (2 / (pi * (w0 * w0))) < overflow_threshold"
    and grid: "\<forall>i<fst shp. \<forall>j<snd shp. is_finite (grid_x g i j) \<and> is_finite (grid_y g i j)"
  shows "(\<exists>t. gaussian_schell_model shp w0 0 sp off = Inr t
            \<and> tensor_shape t = [fst shp, snd shp, fst shp, snd shp]
            \<and> (\<forall>i<fst shp. \<forall>j<snd shp. \<forall>k<fst shp. \<forall>l<snd shp.
                  tensor_at t [i, j, k, l] =
                    dmul (dsqrt (dmul (gaussian_intensity w0 (grid_x g i j) (grid_y g i j))
                                      (gaussian_intensity w0 (grid_x g k l) (grid_y g k l))))
                         (if grid_x g i j = grid_x g k l \<and> grid_y g i j = grid_y g k l
                          then Fin 1 else Fin 0)
                  \<and> tensor_at t [i, j, k, l] \<noteq> NaN)
            \<and> (\<forall>i<fst shp. \<forall>j<snd shp. \<forall>a.
                  gaussian_intensity w0 (grid_x g i j) (grid_y g i j) = Fin a
                  \<and> (a = 0 \<or> min_normal \<le> a * a)
                  \<longrightarrow> tensor_at t [i, j, i, j] = Fin a))
       \<and> (\<forall>cw. 0 < cw \<and> underflow_threshold < cw * cw \<and> cw * cw < overflow_threshold \<longrightarrow>
            (\<exists>t. gaussian_schell_model shp w0 cw sp off = Inr t
               \<and> tensor_shape t = [fst shp, snd shp, fst shp, snd shp]
               \<and> (\<forall>i<fst shp. \<forall>j<snd shp. \<forall>a.
                     gaussian_intensity w0 (grid_x g i j) (grid_y g i j) = Fin a
                     \<and> (a = 0 \<or> min_normal \<le> a * a)
                     \<longrightarrow> tensor_at t [i, j, i, j] = Fin a)))"
proof -
  define P where "P = 2 / (pi * (w0 * w0))"
  have PP: "P * P < overflow_threshold" using pref by (simp add: P_def)
  have Plt: "P < overflow_threshold" using square_bound[OF PP] .
  have I: "\<exists>a. gaussian_intensity w0 (grid_x g i j) (grid_y g i j) = Fin a \<and> 0 \<le> a \<and> a \<le> P"
    if "i < fst shp" "j < snd shp" for i j
    unfolding P_def
    using gaussian_intensity_finite[OF lo hi Plt[unfolded P_def]] grid that by blast
  have diag: "dmul (dsqrt (dmul (gaussian_intensity w0 (grid_x g i j) (grid_y g i j))
                               (gaussian_intensity w0 (grid_x g i j) (grid_y g i j)))) (Fin 1) = Fin a"
    if ij: "i < fst shp" "j < snd shp"
      and a: "gaussian_intensity w0 (grid_x g i j) (grid_y g i j) = Fin a" "a = 0 \<or> min_normal \<le> a * a"
    for i j a
  proof -
    from I[OF ij] a(1) have "0 \<le> a" "a \<le> P" by auto
    from sqrt_square_double[OF this PP a(2)] show ?thesis by (simp only: a(1))
  qed
  have part1: "\<exists>t. gaussian_schell_model shp w0 0 sp off = Inr t
            \<and> tensor_shape t = [fst shp, snd shp, fst shp, snd shp]
            \<and> (\<forall>i<fst shp. \<forall>j<snd shp. \<forall>k<fst shp. \<forall>l<snd shp.
                  tensor_at t [i, j, k, l] =
                    dmul (dsqrt (dmul (gaussian_intensity w0 (grid_x g i j) (grid_y g i j))
                                      (gaussian_intensity w0 (grid_x g k l) (grid_y g k l))))
                         (if grid_x g i j = grid_x g k l \<and> grid_y g i j = grid_y g k l
                          then Fin 1 else Fin 0)
                  \<and> tensor_at t [i, j, k, l] \<noteq> NaN)
            \<and> (\<forall>i<fst shp. \<forall>j<snd shp. \<forall>a.
                  gaussian_intensity w0 (grid_x g i j) (grid_y g i j) = Fin a
                  \<and> (a = 0 \<or> min_normal \<le> a * a)
                  \<longrightarrow> tensor_at t [i, j, i, j] = Fin a)"
  proof -
    from gsm_entry[OF geo gsm_intensity_value[OF lo hi] gsm_coherence_zero] obtain t where
      run: "gaussian_schell_model shp w0 0 sp off = Inr t"
      and sh: "tensor_shape t = [fst shp, snd shp, fst shp, snd shp]"
      and en: "\<And>i j k l. i < fst shp \<Longrightarrow> j < snd shp \<Longrightarrow> k < fst shp \<Longrightarrow> l < snd shp \<Longrightarrow>
              tensor_at t [i, j, k, l] =
                dmul (dsqrt (dmul (gaussian_intensity w0 (grid_x g i j) (grid_y g i j))
                                  (gaussian_intensity w0 (grid_x g k l) (grid_y g k l))))
                     (if dsub (grid_x g i j) (grid_x g k l) = Fin 0
                         \<and> dsub (grid_y g i j) (grid_y g k l) = Fin 0 then Fin 1 else Fin 0)"
      by blast
    have en': "tensor_at t [i, j, k, l] =
                dmul (dsqrt (dmul (gaussian_intensity w0 (grid_x g i j) (grid_y g i j))
                                  (gaussian_intensity w0 (grid_x g k l) (grid_y g k l))))
                     (if grid_x g i j = grid_x g k l \<and> grid_y g i j = grid_y g k l
                      then Fin 1 else Fin 0)"
      if ij: "i < fst shp" "j < snd shp" and kl: "k < fst shp" "l < snd shp" for i j k l
    proof -
      have "dsub (grid_x g i j) (grid_x g k l) = Fin 0 \<longleftrightarrow> grid_x g i j = grid_x g k l"
        "dsub (grid_y g i j) (grid_y g k l) = Fin 0 \<longleftrightarrow> grid_y g i j = grid_y g k l"
        using grid ij kl by (simp_all add: dsub_zero_iff)
      then show ?thesis using en[OF ij kl] by simp
    qed
    have nn: "tensor_at t [i, j, k, l] \<noteq> NaN"
      if ij: "i < fst shp" "j < snd shp" and kl: "k < fst shp" "l < snd shp" for i j k l
    proof -
      from I[OF ij] obtain a1 where a1: "gaussian_intensity w0 (grid_x g i j) (grid_y g i j) = Fin a1"
        "0 \<le> a1" "a1 \<le> P" by blast
      from I[OF kl] obtain a2 where a2: "gaussian_intensity w0 (grid_x g k l) (grid_y g k l) = Fin a2"
        "0 \<le> a2" "a2 \<le> P" by blast
      have "a1 * a2 \<le> P * P" using a1(2,3) a2(2,3) by (intro mult_mono) simp_all
      with PP have "a1 * a2 < overflow_threshold" by simp
      moreover have "0 \<le> a1 * a2" using a1(2) a2(2) by simp
      ultimately obtain b where b: "fl (a1 * a2) = Fin b" "0 \<le> b"
        using fl_nonneg[of "a1 * a2"] by blast
      show ?thesis
        unfolding en'[OF ij kl] a1(1) a2(1) using b by simp
    qed
    have dg: "tensor_at t [i, j, i, j] = Fin a"
      if ij: "i < fst shp" "j < snd shp"
        and a: "gaussian_intensity w0 (grid_x g i j) (grid_y g i j) = Fin a"
               "a = 0 \<or> min_normal \<le> a * a" for i j a
      using en'[OF ij ij] diag[OF ij a] by simp
    from run sh en' nn dg show ?thesis by blast
  qed
  have part2: "\<exists>t. gaussian_schell_model shp w0 cw sp off = Inr t
               \<and> tensor_shape t = [fst shp, snd shp, fst shp, snd shp]
               \<and> (\<forall>i<fst shp. \<forall>j<snd shp. \<forall>a.
                     gaussian_intensity w0 (grid_x g i j) (grid_y g i j) = Fin a
                     \<and> (a = 0 \<or> min_normal \<le> a * a)
                     \<longrightarrow> tensor_at t [i, j, i, j] = Fin a)"
    if cw: "0 < cw" "underflow_threshold < cw * cw" "cw * cw < overflow_threshold" for cw
  proof -
    have flc: "fl (cw * cw) = Fin (cw * cw)"
      using cw threshold_bounds(1) by (simp add: fl_in_range)
    have cw0: "cw \<noteq> 0" using cw(1) by simp
    from gsm_entry[OF geo gsm_intensity_value[OF lo hi] gsm_coherence_pos[OF cw0 cw(3)]] obtain t where
      run: "gaussian_schell_model shp w0 cw sp off = Inr t"
      and sh: "tensor_shape t = [fst shp, snd shp, fst shp, snd shp]"
      and en: "\<And>i j k l. i < fst shp \<Longrightarrow> j < snd shp \<Longrightarrow> k < fst shp \<Longrightarrow> l < snd shp \<Longrightarrow>
              tensor_at t [i, j, k, l] =
                dmul (dsqrt (dmul (gaussian_intensity w0 (grid_x g i j) (grid_y g i j))
                                  (gaussian_intensity w0 (grid_x g k l) (grid_y g k l))))
                     (dexp (ddiv (dneg (dadd
                        (dmul (dsub (grid_x g i j) (grid_x g k l)) (dsub (grid_x g i j) (grid_x g k l)))
                        (dmul (dsub (grid_y g i j) (grid_y g k l)) (dsub (grid_y g i j) (grid_y g k l)))))
                        (dmul (Fin 2) (fl (cw * cw)))))"
      by blast
    have dg: "tensor_at t [i, j, i, j] = Fin a"
      if ij: "i < fst shp" "j < snd shp"
        and a: "gaussian_intensity w0 (grid_x g i j) (grid_y g i j) = Fin a"
               "a = 0 \<or> min_normal \<le> a * a" for i j a
    proof -
      have z: "dsub (grid_x g i j) (grid_x g i j) = Fin 0" "dsub (grid_y g i j) (grid_y g i j) = Fin 0"
        using grid ij by (simp_all add: dsub_zero_iff)
      show ?thesis
        unfolding en[OF ij ij] z flc gaussian_coherence_origin[OF cw(2)]
        using diag[OF ij a] .
    qed
    from run sh dg show ?thesis by blast
  qed
  from part1 part2 show ?thesis by blast
qed

theorem gaussian_schell_model_incoherent_in_range_witness:
  "\<exists>t t'. gaussian_schell_model (1, 2) 1 0 (1, 1) (0, 0) = Inr t
     \<and> tensor_shape t = [1, 2, 1, 2]
     \<and> tensor_at t [0, 0, 0, 1] = Fin 0
     \<and> tensor_at t [0, 1, 0, 1] = Fin (2 / pi * exp (- (1 / 2)))
     \<and> gaussian_schell_model (1, 2) 1 1 (1, 1) (0, 0) = Inr t'
     \<and> tensor_at t' [0, 1, 0, 1] = Fin (2 / pi * exp (- (1 / 2)))"
proof -
  define g where "g = \<lparr>shape = (1::nat, 2::nat), z = 0::real,
    spacing = (1::real, 1::real), offset = (0::real, 0::real)\<rparr>"
  have geo: "PlanarGeometry_init (1, 2) 0 (1, 1) (0, 0) = Inr g"
    by (simp add: PlanarGeometry_init_def g_def)
  have half: "fl (- (1 / 2)) = Fin (- (1 / 2))" "fl (1 / 2) = Fin (1 / 2)"
    by (simp_all add: fl_moderate)
  have mesh: "meshgrid g = (Tensor [1, 2] [Fin 0, Fin 0], Tensor [1, 2] [Fin (- (1 / 2)), Fin (1 / 2)])"
    by (simp add: meshgrid_def g_def Let_def outer_list_def upt_rec half dadd_small
          del: dadd.simps)
  have gx: "grid_x g 0 0 = Fin 0" "grid_x g 0 1 = Fin 0"
    and gy: "grid_y g 0 0 = Fin (- (1 / 2))" "grid_y g 0 1 = Fin (1 / 2)"
    by (simp_all add: grid_x_def grid_y_def mesh tensor_at_def ravel_def)
  have grid: "\<forall>i<fst (1::nat, 2::nat). \<forall>j<snd (1::nat, 2::nat).
      is_finite (grid_x g i j) \<and> is_finite (grid_y g i j)"
  proof (intro allI impI)
    fix i j :: nat
    assume "i < fst (1::nat, 2::nat)" "j < snd (1::nat, 2::nat)"
    then have "i = 0" "j = 0 \<or> j = 1" by auto
    then show "is_finite (grid_x g i j) \<and> is_finite (grid_y g i j)"
      using gx gy by auto
  qed
  have lo: "underflow_threshold < 1 * (1::real)" and hi: "1 * (1::real) < overflow_threshold"
    using threshold_bounds by simp_all
  have "2 / pi * (2 / pi) \<le> 1 * 1"
    using two_over_pi pi_gt_zero by (intro mult_mono) simp_all
  then have "2 / pi * (2 / pi) < overflow_threshold"
    using threshold_bounds(3) by linarith
  then have pref: "2 / (pi * (1 * 1)) * (2 / (pi * (1 * 1))) < overflow_threshold"
    by (simp only: mult_1_right)
  have a: "gaussian_intensity 1 (grid_x g 0 1) (grid_y g 0 1) = Fin (2 / pi * exp (- (1 / 2)))"
    by (simp only: gx gy gaussian_intensity_sample)
  have "1 / 4 \<le> 2 / pi * exp (- (1 / 2))"
    using mult_mono[OF two_over_pi(1) exp_minus_half(1)] by simp
  then have "1 / 4 * (1 / 4) \<le> 2 / pi * exp (- (1 / 2)) * (2 / pi * exp (- (1 / 2)))"
    by (intro mult_mono) simp_all
  then have sq: "min_normal \<le> 2 / pi * exp (- (1 / 2)) * (2 / pi * exp (- (1 / 2)))"
    using threshold_bounds(5) by linarith
  note main = gaussian_schell_model_incoherent_in_range[OF geo zero_less_one lo hi pref grid]
  from main[THEN conjunct1] obtain t where
    t: "gaussian_schell_model (1, 2) 1 0 (1, 1) (0, 0) = Inr t"
       "tensor_shape t = [fst (1::nat, 2::nat), snd (1::nat, 2::nat), fst (1::nat, 2::nat), snd (1::nat, 2::nat)]"
    and en: "\<forall>i<fst (1::nat, 2::nat). \<forall>j<snd (1::nat, 2::nat). \<forall>k<fst (1::nat, 2::nat). \<forall>l<snd (1::nat, 2::nat).
                  tensor_at t [i, j, k, l] =
                    dmul (dsqrt (dmul (gaussian_intensity 1 (grid_x g i j) (grid_y g i j))
                                      (gaussian_intensity 1 (grid_x g k l) (grid_y g k l))))
                         (if grid_x g i j = grid_x g k l \<and> grid_y g i j = grid_y g k l
                          then Fin 1 else Fin 0)
                  \<and> tensor_at t [i, j, k, l] \<noteq> NaN"
    and dg: "\<forall>i<fst (1::nat, 2::nat). \<forall>j<snd (1::nat, 2::nat). \<forall>a.
                  gaussian_intensity 1 (grid_x g i j) (grid_y g i j) = Fin a
                  \<and> (a = 0 \<or> min_normal \<le> a * a)
                  \<longrightarrow> tensor_at t [i, j, i, j] = Fin a"
    by blast
  have e1: "tensor_at t [0, 0, 0, 1] = Fin 0"
  proof -
    from en[rule_format, of 0 0 0 1] gx gy
    have "tensor_at t [0, 0, 0, 1] =
        dmul (dsqrt (dmul (gaussian_intensity 1 (grid_x g 0 0) (grid_y g 0 0))
                          (gaussian_intensity 1 (grid_x g 0 1) (grid_y g 0 1)))) (Fin 0)"
      "tensor_at t [0, 0, 0, 1] \<noteq> NaN"
      by auto
    then show ?thesis using dmul_zero_not_NaN by metis
  qed
  have e2: "tensor_at t [0, 1, 0, 1] = Fin (2 / pi * exp (- (1 / 2)))"
    using dg[rule_format, of 0 1 "2 / pi * exp (- (1 / 2))"] a sq by simp
  have cw: "0 < (1::real) \<and> underflow_threshold < 1 * (1::real) \<and> 1 * (1::real) < overflow_threshold"
    using threshold_bounds by simp
  from main[THEN conjunct2, rule_format, OF cw] obtain t' where
    t': "gaussian_schell_model (1, 2) 1 1 (1, 1) (0, 0) = Inr t'"
    and dg': "\<forall>i<fst (1::nat, 2::nat). \<forall>j<snd (1::nat, 2::nat). \<forall>a.
                  gaussian_intensity 1 (grid_x g i j) (grid_y g i j) = Fin a
                  \<and> (a = 0 \<or> min_normal \<le> a * a)
                  \<longrightarrow> tensor_at t' [i, j, i, j] = Fin a"
    by blast
  have e3: "tensor_at t' [0, 1, 0, 1] = Fin (2 / pi * exp (- (1 / 2)))"
    using dg'[rule_format, of 0 1 "2 / pi * exp (- (1 / 2))"] a sq by simp
  from t e1 e2 t' e3 show ?thesis by simp
qed

text \<open>
  \<^bold>\<open>C9\<close> as stated, for every \<open>waist_radius > 0\<close>, fails: for \<open>waist_radius = 1e-200\<close> the
  square \<open>waist_radius**2\<close> underflows to 0, and the Python division
  \<open>2 / (torch.pi * waist_radius**2)\<close> raises a ZeroDivisionError, whatever the grid.
\<close>

theorem gaussian_schell_model_underflow_counterexample:
  "gaussian_schell_model (1, 1) (1 / 10 ^ 200) 0 (1, 1) (0, 0)
     = Inl (ZeroDivisionError ''float division by zero'')"
proof -
  have geo: "PlanarGeometry_init (1, 1) 0 (1, 1) (0, 0)
      = Inr \<lparr>shape = (1, 1), z = 0, spacing = (1, 1), offset = (0, 0)\<rparr>"
    by (simp add: PlanarGeometry_init_def)
  show ?thesis
    unfolding gaussian_schell_model_def schell_model_def geo
    by (simp only: bind_err_def gsm_intensity_underflow case_prod_unfold Let_def sum.case)
qed

end
